theory Spec2Isabelle
  imports Main
begin

section \<open>Python values used by the Meson adapter\<close>

text \<open>
  The adapter is the class \<open>MesonProject\<close> of \<open>pycheribuild/projects/meson_project.py\<close>.
  A failed \<open>assert\<close> raises \<open>AssertionError\<close> (assertions are taken as enabled), the
  \<open>rootfs_dir\<close> property raises \<open>LookupError\<close> when the target has no root file system,
  \<open>Path.relative_to\<close> raises \<open>ValueError\<close>, and a collaborator outside this file (the base
  class, a subprocess) may fail on its own: \<open>ExternalFailure\<close>. Messages of exceptions are
  not modelled.
\<close>

datatype error = AssertionError | LookupError | ValueError | ExternalFailure

text \<open>
  A \<open>pathlib\<close> path of a POSIX host: whether it is anchored at the root, and its components.
  (\<open>pathlib\<close> keeps a leading \<open>//\<close> as a root of its own; that root is not modelled.)
\<close>

datatype path = Path (absolute: bool) (parts: "string list")

fun split_slash :: "string \<Rightarrow> string list" where
  "split_slash [] = [[]]"
| "split_slash (c # cs) =
     (if c = CHR ''/'' then [] # split_slash cs
      else (case split_slash cs of [] \<Rightarrow> [[c]] | w # ws \<Rightarrow> (c # w) # ws))"

definition path_of_str :: "string \<Rightarrow> path" where
  "path_of_str s =
     Path (case s of [] \<Rightarrow> False | c # _ \<Rightarrow> c = CHR ''/'')
          (filter (\<lambda>w. w \<noteq> [] \<and> w \<noteq> ''.'') (split_slash s))"

text \<open>\<open>p / s\<close>: an absolute right operand replaces the left one.\<close>

definition path_div :: "path \<Rightarrow> string \<Rightarrow> path" where
  "path_div p s =
     (let q = path_of_str s
      in if absolute q then q else Path (absolute p) (parts p @ parts q))"

text \<open>\<open>sep.join(xs)\<close>\<close>

fun str_join :: "'a list \<Rightarrow> 'a list list \<Rightarrow> 'a list" where
  "str_join sep [] = []"
| "str_join sep [x] = x"
| "str_join sep (x # y # ys) = x @ sep @ str_join sep (y # ys)"

definition path_str :: "path \<Rightarrow> string" where
  "path_str p =
     (if absolute p then ''/'' @ str_join ''/'' (parts p)
      else if parts p = [] then ''.'' else str_join ''/'' (parts p))"

definition relative_to :: "path \<Rightarrow> path \<Rightarrow> error + path" where
  "relative_to p other =
     (if absolute p = absolute other \<and> take (length (parts other)) (parts p) = parts other
      then Inr (Path False (drop (length (parts other)) (parts p)))
      else Inl ValueError)"

text \<open>The values that reach this file as list entries, option values and keyword arguments.\<close>

datatype pyval = PyStr string | PyPath path | PyInt int | PyBool bool | PyNone

text \<open>\<open>str(n)\<close> for an integer: decimal digits, a minus sign for a negative number.\<close>

definition digit_char :: "nat \<Rightarrow> char" where
  "digit_char d = ''0123456789'' ! d"

fun str_nat :: "nat \<Rightarrow> string" where
  "str_nat n = (if n < 10 then [digit_char n] else str_nat (n div 10) @ [digit_char (n mod 10)])"

declare str_nat.simps [simp del]

definition str_int :: "int \<Rightarrow> string" where
  "str_int i = (if i < 0 then CHR ''-'' # str_nat (nat (- i)) else str_nat (nat i))"

fun py_str :: "pyval \<Rightarrow> string" where
  "py_str (PyStr s) = s"
| "py_str (PyPath p) = path_str p"
| "py_str (PyInt i) = str_int i"
| "py_str (PyBool b) = (if b then ''True'' else ''False'')"
| "py_str PyNone = ''None''"

section \<open>The adapter's state and its collaborators\<close>

type_synonym version = "int \<times> int \<times> int"

datatype kwarg = Scalar pyval | ListV "pyval list"

text \<open>
  Calls that leave this file: the base class, the command runner, the file installer, the
  CheriBSD test harness and the logger. Each is recorded with its arguments, in call order.
\<close>

datatype call =
    SuperSetup
  | PrepareToolchainFileCommon "path option" "(string \<times> kwarg) list"
  | ReplaceValuesInToolchainFile string path "(string \<times> kwarg) list"
  | RunCmd "string list" path
  | SuperConfigure "string list"
  | InstallFile path path bool
  | RunCheribsdTestScript string "string list" bool bool bool bool
  | Info "string list"

text \<open>
  What the adapter reads and never assigns: the merged configuration, the target information
  object, the process environment, and the answers of the outside world. \<open>ext c fs\<close> is the
  outcome of the external call \<open>c\<close> on the file system \<open>fs\<close> (the set of existing paths):
  \<open>None\<close> when the call raises, the file system it leaves otherwise.
\<close>

record inputs =
  getenv :: "string \<Rightarrow> string option"
  which :: "string \<Rightarrow> string option"
  include_local_file :: "string \<Rightarrow> string"
  ext :: "call \<Rightarrow> path set \<Rightarrow> path set option"
  compiling_for_host :: bool
  is_freebsd :: bool
  is_baremetal :: bool
  is_cheribsd :: bool
  pkg_config_libdir_override :: "string option"
  additional_rpath_directories :: "pyval list"
  default_libdir :: string
  dependency_install_prefixes :: "path list"
  rootfs_dir :: "path option"
  linker :: path
  meson_cpu_family :: string
  endianess :: string
  meson_extra_binaries :: string
  meson_extra_properties :: string
  host_CC :: path
  host_CXX :: path
  host_dependency_prefixes :: "path list"
  other_tools_dir :: path
  pkgconfig_candidates :: "path \<Rightarrow> pyval list"
  cmake_prefix_paths :: "pyval list"
  build_dir :: path
  source_dir :: path
  install_dir :: path
  install_prefix :: path
  destdir :: "path option"
  force_configure :: bool
  with_clean :: bool
  use_lto :: bool
  use_asan :: bool
  cc_is_clang :: bool
  make_jobs :: int
  build_type_meson_args :: "(string \<times> pyval) list"
  meson_options :: "string list"
  copy_compilation_db_to_source_dir :: bool
  target :: string
  crosscompile_target :: string
  meson_test_script_extra_args :: "string list"
  tests_need_full_disk_image :: bool

text \<open>
  What the adapter assigns, together with the file system it looks at and the record of
  the calls it has made.
\<close>

record project =
  minimum_cmake_or_meson_version :: "version option"
  configure_command :: string
  configure_args :: "string list"
  configure_environment :: "string \<rightharpoonup> string"
  make_args_env :: "string \<rightharpoonup> string"
  COMMON_LDFLAGS :: "string list"
  toolchain_template :: "string option"
  toolchain_file :: "path option"
  files :: "path set"
  trace :: "call list"

text \<open>
  A method either returns, leaving the object in a new state (\<open>Inr\<close>), or raises, leaving it
  in the state reached at the \<open>raise\<close> (\<open>Inl\<close>).
\<close>

type_synonym result = "(error \<times> project) + project"

definition and_then :: "result \<Rightarrow> (project \<Rightarrow> result) \<Rightarrow> result" where
  "and_then r f = (case r of Inl e \<Rightarrow> Inl e | Inr s \<Rightarrow> f s)"

text \<open>
  An external call is recorded and then answered by the outside world: it raises, or it
  returns and leaves a file system. A collaborator is taken to leave the attributes that
  this file assigns as they are.
\<close>

definition do_call :: "inputs \<Rightarrow> call \<Rightarrow> project \<Rightarrow> result" where
  "do_call inp c self =
     (let self' = self\<lparr>trace := trace self @ [c]\<rparr>
      in case ext inp c (files self') of
           None \<Rightarrow> Inl (ExternalFailure, self')
         | Some fs \<Rightarrow> Inr (self'\<lparr>files := fs\<rparr>))"

text \<open>\<open>self.info(...)\<close> logs and returns.\<close>

definition info :: "string list \<Rightarrow> project \<Rightarrow> result" where
  "info msg self = Inr (self\<lparr>trace := trace self @ [Info msg]\<rparr>)"

section \<open>The version floor\<close>

text \<open>Python compares tuples at the first position where they differ.\<close>

fun tuple_ge :: "version \<Rightarrow> version \<Rightarrow> bool" where
  "tuple_ge (a1, a2, a3) (b1, b2, b3) =
     (if a1 \<noteq> b1 then b1 < a1 else if a2 \<noteq> b2 then b2 < a2 else b3 \<le> a3)"

definition tuple_lt :: "version \<Rightarrow> version \<Rightarrow> bool" where
  "tuple_lt a b = (tuple_ge b a \<and> a \<noteq> b)"

definition set_minimum_meson_version :: "project \<Rightarrow> int \<Rightarrow> int \<Rightarrow> int \<Rightarrow> result" where
  "set_minimum_meson_version self major minor patch =
     (let new_version = (major, minor, patch)
      in if (case minimum_cmake_or_meson_version self of
               None \<Rightarrow> True
             | Some v \<Rightarrow> tuple_ge new_version v)
         then Inr (self\<lparr>minimum_cmake_or_meson_version := Some new_version\<rparr>)
         else Inl (AssertionError, self))"

text \<open>
  \<open>__init__\<close>, applied to the object as the base class's constructor left it. The keyword
  default \<open>patch=0\<close> is written out.
\<close>

definition init :: "inputs \<Rightarrow> project \<Rightarrow> result" where
  "init inp base =
     (let self = base\<lparr>configure_command :=
                       (case getenv inp ''MESON_COMMAND'' of None \<Rightarrow> ''meson'' | Some c \<Rightarrow> c)\<rparr>;
          self = self\<lparr>configure_args := ''setup'' # configure_args self\<rparr>
      in set_minimum_meson_version self 0 57 0)"

section \<open>Queries on the build directory\<close>

definition path_exists :: "project \<Rightarrow> path \<Rightarrow> bool" where
  "path_exists self p = (p \<in> files self)"

definition needs_configure :: "inputs \<Rightarrow> project \<Rightarrow> bool" where
  "needs_configure inp self = (\<not> path_exists self (path_div (build_dir inp) ''build.ninja''))"

section \<open>Configure options\<close>

definition bool_to_str :: "bool \<Rightarrow> string" where
  "bool_to_str value = (if value then ''true'' else ''false'')"

definition option_arg :: "string \<Rightarrow> pyval \<Rightarrow> string" where
  "option_arg option value =
     ''-D'' @ option @ ''='' @ (case value of PyBool b \<Rightarrow> bool_to_str b | _ \<Rightarrow> py_str value)"

definition is_option_for :: "string \<Rightarrow> string \<Rightarrow> bool" where
  "is_option_for option arg = (take (length option + 3) arg = ''-D'' @ option @ ''='')"

text \<open>
  Modelled from the spec: \<open>_add_configure_options\<close> of the base class
  \<open>_CMakeAndMesonSharedLogic\<close> (\<open>project.py\<close>), which is not among the sources. The spec
  describes the options as an ``ordered list of key/value command-line options destined for
  the underlying tool; keys unique per logical option name, last-write-wins on replace,
  append-only otherwise'', written \<open>-Dkey=value\<close> on the command line, a boolean as
  \<open>true\<close> or \<open>false\<close>. It attaches no behaviour to the options of the configuration file
  or to \<open>_include_empty_vars\<close>; both are passed as the source passes them.
\<close>

fun add_configure_options ::
  "string list \<Rightarrow> bool \<Rightarrow> bool \<Rightarrow> (string \<times> pyval) list \<Rightarrow> project \<Rightarrow> project" where
  "add_configure_options config_file_options replace include_empty_vars [] self = self"
| "add_configure_options config_file_options replace include_empty_vars ((option, value) # kwargs) self =
     add_configure_options config_file_options replace include_empty_vars kwargs
       (self\<lparr>configure_args :=
          (if replace then filter (\<lambda>arg. \<not> is_option_for option arg) (configure_args self)
           else configure_args self) @ [option_arg option value]\<rparr>)"

definition add_meson_options ::
  "inputs \<Rightarrow> bool \<Rightarrow> bool \<Rightarrow> (string \<times> pyval) list \<Rightarrow> project \<Rightarrow> project" where
  "add_meson_options inp include_empty_vars replace kwargs self =
     add_configure_options (meson_options inp) replace include_empty_vars kwargs self"

text \<open>
  Modelled from the spec: \<open>remove_duplicates\<close> of \<open>utils.py\<close>, which is not among the
  sources. The spec: ``deduplicate the final list preserving first-seen order''. Entries
  are compared with \<open>==\<close>; the lists of this file hold strings and paths, and a string
  and a path are never equal.
\<close>

fun remove_duplicates_from :: "'a list \<Rightarrow> 'a list \<Rightarrow> 'a list" where
  "remove_duplicates_from seen [] = seen"
| "remove_duplicates_from seen (x # xs) =
     remove_duplicates_from (if x \<in> set seen then seen else seen @ [x]) xs"

definition remove_duplicates :: "'a list \<Rightarrow> 'a list" where
  "remove_duplicates items = remove_duplicates_from [] items"

section \<open>Lists in the machine files\<close>

text \<open>
  \<open>_toolchain_file_list_to_str\<close> returns \<open>str(list(map(str, values)))\<close>: the display of a
  list of strings, each shown by \<open>repr\<close>. The text of a Python string is a sequence of
  Unicode code points, numbers below \<open>0x110000\<close>. The names in the rest of this
  development are written as \<open>string\<close>; \<open>ustr\<close> gives the code points of such a name.
\<close>

type_synonym unicode = "nat list"

definition uchr :: "char \<Rightarrow> nat" where
  "uchr c = of_char c"

definition ustr :: "string \<Rightarrow> unicode" where
  "ustr s = map uchr s"

definition valid_text :: "unicode \<Rightarrow> bool" where
  "valid_text t = list_all (\<lambda>c. c < 0x110000) t"

definition is_surrogate :: "nat \<Rightarrow> bool" where
  "is_surrogate c = (0xD800 \<le> c \<and> c \<le> 0xDFFF)"

text \<open>
  A value as \<open>_toolchain_file_list_to_str\<close> sees it: whether it is a \<open>str\<close>, a \<open>Path\<close> or
  something else, and the text that \<open>str\<close> gives for it.
\<close>

datatype list_value = StrValue unicode | PathValue unicode | OtherValue unicode

fun value_str :: "list_value \<Rightarrow> unicode" where
  "value_str (StrValue t) = t"
| "value_str (PathValue t) = t"
| "value_str (OtherValue t) = t"

definition is_str_or_path :: "list_value \<Rightarrow> bool" where
  "is_str_or_path x = (case x of StrValue _ \<Rightarrow> True | PathValue _ \<Rightarrow> True | OtherValue _ \<Rightarrow> False)"

definition backslash :: nat where "backslash = 0x5C"
definition squote :: nat where "squote = 0x27"
definition dquote :: nat where "dquote = 0x22"

definition hex_digit :: "nat \<Rightarrow> nat" where
  "hex_digit d = uchr (''0123456789abcdef'' ! d)"

text \<open>The \<open>k\<close> low hexadecimal digits of \<open>n\<close>, the highest first.\<close>

fun hex_digits :: "nat \<Rightarrow> nat \<Rightarrow> unicode" where
  "hex_digits 0 n = []"
| "hex_digits (Suc k) n = hex_digit ((n div 16 ^ k) mod 16) # hex_digits k n"

text \<open>
  \<open>repr\<close> of one character inside the quotes \<open>quote\<close> (\<open>unicode_repr\<close> of CPython). Above
  ASCII it asks the Unicode database of the interpreter whether the character is
  printable; that table, \<open>isprintable\<close>, is a parameter here. In the database the
  surrogates have the category Cs, which is not printable: \<open>surrogates_not_printable\<close>
  says so of a table.
\<close>

definition surrogates_not_printable :: "(nat \<Rightarrow> bool) \<Rightarrow> bool" where
  "surrogates_not_printable isprintable = list_all (\<lambda>c. \<not> isprintable c) [0xD800..<0xE000]"

definition repr_char :: "(nat \<Rightarrow> bool) \<Rightarrow> nat \<Rightarrow> nat \<Rightarrow> unicode" where
  "repr_char isprintable quote ch =
     (if ch = quote \<or> ch = backslash then [backslash, ch]
      else if ch = 0x09 then [backslash, uchr CHR ''t'']
      else if ch = 0x0A then [backslash, uchr CHR ''n'']
      else if ch = 0x0D then [backslash, uchr CHR ''r'']
      else if ch < 0x20 \<or> ch = 0x7F then backslash # uchr CHR ''x'' # hex_digits 2 ch
      else if ch < 0x7F then [ch]
      else if isprintable ch then [ch]
      else if ch \<le> 0xFF then backslash # uchr CHR ''x'' # hex_digits 2 ch
      else if ch \<le> 0xFFFF then backslash # uchr CHR ''u'' # hex_digits 4 ch
      else backslash # uchr CHR ''U'' # hex_digits 8 ch)"

text \<open>Double quotes are chosen only for a string with a single quote and no double quote.\<close>

definition repr_str :: "(nat \<Rightarrow> bool) \<Rightarrow> unicode \<Rightarrow> unicode" where
  "repr_str isprintable s =
     (let quote = (if squote \<in> set s \<and> dquote \<notin> set s then dquote else squote)
      in quote # concat (map (repr_char isprintable quote) s) @ [quote])"

definition repr_str_list :: "(nat \<Rightarrow> bool) \<Rightarrow> unicode list \<Rightarrow> unicode" where
  "repr_str_list isprintable xs =
     ustr ''['' @ str_join (ustr '', '') (map (repr_str isprintable) xs) @ ustr '']''"

definition toolchain_file_list_to_str :: "(nat \<Rightarrow> bool) \<Rightarrow> list_value list \<Rightarrow> error + unicode" where
  "toolchain_file_list_to_str isprintable values =
     (if list_all is_str_or_path values
      then Inr (repr_str_list isprintable (map value_str values))
      else Inl AssertionError)"

text \<open>
  The reader of such a display. It reads a part of what Python's own reader
  (\<open>ast.literal_eval\<close>) reads, and reads it as Python does: an opening bracket, string
  literals in either kind of quotes separated by a comma and a space, a closing bracket.
  Inside a literal a backslash introduces \<open>\\\<close>, a quote, \<open>\t\<close>, \<open>\n\<close>, \<open>\r\<close>, \<open>\xhh\<close>,
  \<open>\uhhhh\<close> or \<open>\Uhhhhhhhh\<close> (up to \<open>0x10FFFF\<close>). A character that stands for itself must
  be one that Python source text may hold inside such a literal: not a line feed, a
  carriage return or a null character, and not a surrogate. Everything else is refused.
  \<open>read_chars\<close> returns the string read up to the closing quote and the rest.
\<close>

definition hex_val :: "nat \<Rightarrow> nat option" where
  "hex_val c =
     (if 0x30 \<le> c \<and> c \<le> 0x39 then Some (c - 0x30)
      else if 0x61 \<le> c \<and> c \<le> 0x66 then Some (c - 0x61 + 10)
      else if 0x41 \<le> c \<and> c \<le> 0x46 then Some (c - 0x41 + 10)
      else None)"

fun hex_value_from :: "nat \<Rightarrow> unicode \<Rightarrow> nat option" where
  "hex_value_from acc [] = Some acc"
| "hex_value_from acc (c # cs) =
     (case hex_val c of None \<Rightarrow> None | Some d \<Rightarrow> hex_value_from (16 * acc + d) cs)"

definition read_hex :: "nat \<Rightarrow> unicode \<Rightarrow> nat option" where
  "read_hex k cs = (if length cs < k then None else hex_value_from 0 (take k cs))"

definition stands_for_itself :: "nat \<Rightarrow> bool" where
  "stands_for_itself c =
     (c \<noteq> 0x00 \<and> c \<noteq> 0x0A \<and> c \<noteq> 0x0D \<and> \<not> is_surrogate c \<and> c < 0x110000)"

definition read_more :: "nat \<Rightarrow> (unicode \<times> unicode) option \<Rightarrow> (unicode \<times> unicode) option" where
  "read_more c r = (case r of None \<Rightarrow> None | Some (s, rest) \<Rightarrow> Some (c # s, rest))"

function read_chars :: "nat \<Rightarrow> unicode \<Rightarrow> (unicode \<times> unicode) option" where
  "read_chars quote [] = None"
| "read_chars quote (c # cs) =
     (if c = quote then Some ([], cs)
      else if c = backslash then
        (case cs of
           [] \<Rightarrow> None
         | e # es \<Rightarrow>
             if e = backslash \<or> e = squote \<or> e = dquote then read_more e (read_chars quote es)
             else if e = uchr CHR ''t'' then read_more 0x09 (read_chars quote es)
             else if e = uchr CHR ''n'' then read_more 0x0A (read_chars quote es)
             else if e = uchr CHR ''r'' then read_more 0x0D (read_chars quote es)
             else if e = uchr CHR ''x'' then
               (case read_hex 2 es of
                  None \<Rightarrow> None
                | Some v \<Rightarrow> read_more v (read_chars quote (drop 2 es)))
             else if e = uchr CHR ''u'' then
               (case read_hex 4 es of
                  None \<Rightarrow> None
                | Some v \<Rightarrow> read_more v (read_chars quote (drop 4 es)))
             else if e = uchr CHR ''U'' then
               (case read_hex 8 es of
                  None \<Rightarrow> None
                | Some v \<Rightarrow>
                    if v \<le> 0x10FFFF then read_more v (read_chars quote (drop 8 es)) else None)
             else None)
      else if stands_for_itself c then read_more c (read_chars quote cs)
      else None)"
  by pat_completeness auto
termination
  by (relation "measure (\<lambda>(quote, cs). length cs)") auto

lemma read_more_Some:
  "read_more c r = Some (s, rest) \<longleftrightarrow> (\<exists>s'. r = Some (s', rest) \<and> s = c # s')"
  by (auto simp: read_more_def split: option.splits)

lemma read_chars_step:
  assumes "read_chars quote (c # cs) = Some (s, rest)"
  shows "rest = cs \<or> (\<exists>ys s'. length ys \<le> length cs \<and> read_chars quote ys = Some (s', rest))"
proof -
  have sub: "\<exists>ys s'. length ys \<le> length cs \<and> read_chars quote ys = Some (s', rest)"
    if "\<exists>v. read_more v (read_chars quote ys) = Some (s, rest)" "length ys \<le> length cs" for ys
    using that read_more_Some by blast
  show ?thesis
  proof (cases "c = quote")
    case True
    then show ?thesis using assms by simp
  next
    case False
    show ?thesis
    proof (cases "c = backslash")
      case esc: True
      then obtain e es where cs: "cs = e # es"
        using assms False by (cases cs) auto
      have "(\<exists>v. read_more v (read_chars quote es) = Some (s, rest))
          \<or> (\<exists>v. read_more v (read_chars quote (drop 2 es)) = Some (s, rest))
          \<or> (\<exists>v. read_more v (read_chars quote (drop 4 es)) = Some (s, rest))
          \<or> (\<exists>v. read_more v (read_chars quote (drop 8 es)) = Some (s, rest))"
        using assms False esc unfolding cs
        by (auto split: if_splits option.splits)
      then consider k where "\<exists>v. read_more v (read_chars quote (drop k es)) = Some (s, rest)"
        by (metis drop_0)
      then show ?thesis
      proof cases
        case 1
        have "length (drop k es) \<le> length cs" by (simp add: cs)
        from sub[OF 1 this] show ?thesis by blast
      qed
    next
      case raw: False
      then have "\<exists>v. read_more v (read_chars quote cs) = Some (s, rest)"
        using assms False by (auto split: if_splits)
      then show ?thesis using sub[of cs] by simp
    qed
  qed
qed

lemma read_chars_shorter: "read_chars quote cs = Some (s, rest) \<Longrightarrow> length rest < length cs"
proof (induction cs arbitrary: s rest rule: length_induct)
  case (1 cs)
  show ?case
  proof (cases cs)
    case Nil
    with "1.prems" show ?thesis by simp
  next
    case (Cons c cs')
    from read_chars_step[OF "1.prems"[unfolded Cons]]
    consider "rest = cs'"
      | ys s' where "length ys \<le> length cs'" "read_chars quote ys = Some (s', rest)"
      by blast
    then show ?thesis
    proof cases
      case 1
      then show ?thesis by (simp add: Cons)
    next
      case 2
      have "length ys < length cs" using 2(1) by (simp add: Cons)
      with "1.IH" 2(2) have "length rest < length ys" by blast
      with 2(1) show ?thesis by (simp add: Cons)
    qed
  qed
qed

function read_items :: "unicode \<Rightarrow> unicode list option" where
  "read_items [] = None"
| "read_items (quote # cs) =
     (if quote = squote \<or> quote = dquote then
        (case read_chars quote cs of
           None \<Rightarrow> None
         | Some (x, rest) \<Rightarrow>
             (case rest of
                [] \<Rightarrow> None
              | [c] \<Rightarrow> if c = uchr CHR '']'' then Some [x] else None
              | c # d # rest' \<Rightarrow>
                  if c = uchr CHR '','' \<and> d = uchr CHR '' ''
                  then map_option ((#) x) (read_items rest') else None))
      else None)"
  by pat_completeness auto
termination
  by (relation "measure length") (auto dest: read_chars_shorter)

definition read_str_list :: "unicode \<Rightarrow> unicode list option" where
  "read_str_list txt =
     (case txt of
        [] \<Rightarrow> None
      | c # cs \<Rightarrow>
          if c = uchr CHR ''[''
          then (if cs = ustr '']'' then Some [] else read_items cs) else None)"

section \<open>setup\<close>

definition native_toolchain_file :: "inputs \<Rightarrow> error + path" where
  "native_toolchain_file inp =
     (if compiling_for_host inp then Inl AssertionError
      else Inr (path_div (build_dir inp) ''meson-native-file.ini''))"

definition extend_args :: "string list \<Rightarrow> project \<Rightarrow> project" where
  "extend_args xs self = self\<lparr>configure_args := configure_args self @ xs\<rparr>"

text \<open>Lines 95 to 109: the machine files and their command-line arguments.\<close>

definition setup_toolchain_file :: "inputs \<Rightarrow> project \<Rightarrow> result" where
  "setup_toolchain_file inp self =
     (if \<not> compiling_for_host inp then
        if is_freebsd inp \<or> is_baremetal inp then
          let tf = path_div (build_dir inp) ''meson-cross-file.ini'';
              self = self\<lparr>toolchain_file := Some tf\<rparr>;
              self = extend_args [''--cross-file'', path_str tf] self
          in case native_toolchain_file inp of
               Inl e \<Rightarrow> Inl (e, self)
             | Inr nf \<Rightarrow> Inr (extend_args [''--native-file'', path_str nf] self)
        else Inl (AssertionError, self)
      else
        let tf = path_div (build_dir inp) ''meson-native-file.ini'';
            self = self\<lparr>toolchain_file := Some tf\<rparr>;
            self = extend_args [''--native-file'', path_str tf] self
        in case pkg_config_libdir_override inp of
             None \<Rightarrow> Inr self
           | Some d \<Rightarrow>
               Inr (self\<lparr>configure_environment := (configure_environment self)(''PKG_CONFIG_LIBDIR'' \<mapsto> d),
                         make_args_env := (make_args_env self)(''PKG_CONFIG_LIBDIR'' \<mapsto> d)\<rparr>))"

text \<open>Lines 110 to 119: the flags and options of the \<open>meson setup\<close> command line.\<close>

definition setup_flags :: "inputs \<Rightarrow> project \<Rightarrow> project" where
  "setup_flags inp self =
     (let self = (if force_configure inp \<and> \<not> with_clean inp
                     \<and> path_exists self (path_div (build_dir inp) ''meson-info'')
                  then extend_args [''--reconfigure''] self else self);
          self = extend_args [''--wrap-mode=nofallback''] self;
          self = add_meson_options inp False True (build_type_meson_args inp) self;
          self = (if use_lto inp
                  then add_meson_options inp False True
                         [(''b_lto'', PyBool True),
                          (''b_lto_threads'', PyInt (make_jobs inp)),
                          (''b_lto_mode'', PyStr (if cc_is_clang inp then ''thin'' else ''default''))] self
                  else self)
      in if use_asan inp
         then add_meson_options inp False True
                [(''b_sanitize'', PyStr ''address,undefined''), (''b_lundef'', PyBool False)] self
         else self)"

text \<open>
  Line 127, the comprehension over \<open>extra_libdirs\<close>: each round reads \<open>self.rootfs_dir\<close>
  and then strips it from the library directory.
\<close>

fun rootfs_relative :: "inputs \<Rightarrow> path list \<Rightarrow> error + pyval list" where
  "rootfs_relative inp [] = Inr []"
| "rootfs_relative inp (s # ss) =
     (case rootfs_dir inp of
        None \<Rightarrow> Inl LookupError
      | Some r \<Rightarrow>
          (case relative_to s r of
             Inl e \<Rightarrow> Inl e
           | Inr q \<Rightarrow>
               (case rootfs_relative inp ss of
                  Inl e \<Rightarrow> Inl e
                | Inr qs \<Rightarrow> Inr (PyStr (''/'' @ path_str q) # qs))))"

text \<open>Lines 124 to 128; \<open>contextlib.suppress(LookupError)\<close> keeps the paths as they were.\<close>

definition rpath_dirs :: "inputs \<Rightarrow> error + pyval list" where
  "rpath_dirs inp =
     (let extra_libdirs = map (\<lambda>s. path_div s (default_libdir inp)) (dependency_install_prefixes inp)
      in case rootfs_relative inp extra_libdirs of
           Inl LookupError \<Rightarrow>
             Inr (remove_duplicates (additional_rpath_directories inp @ map PyPath extra_libdirs))
         | Inl e \<Rightarrow> Inl e
         | Inr stripped \<Rightarrow>
             Inr (remove_duplicates (additional_rpath_directories inp @ stripped)))"

definition setup_rpath :: "inputs \<Rightarrow> project \<Rightarrow> result" where
  "setup_rpath inp self =
     (if \<not> compiling_for_host inp then
        case rpath_dirs inp of
          Inl e \<Rightarrow> Inl (e, self)
        | Inr dirs \<Rightarrow>
            Inr (if dirs \<noteq> []
                 then self\<lparr>COMMON_LDFLAGS :=
                        COMMON_LDFLAGS self @ [''-Wl,-rpath='' @ str_join '':'' (map py_str dirs)]\<rparr>
                 else self)
      else Inr self)"

text \<open>\<open>MesonProject.setup\<close>\<close>

definition setup_project :: "inputs \<Rightarrow> project \<Rightarrow> result" where
  "setup_project inp self =
     and_then (do_call inp SuperSetup self) (\<lambda>self.
     and_then (setup_toolchain_file inp
                 (self\<lparr>toolchain_template :=
                    Some (include_local_file inp ''files/meson-machine-file.ini.in'')\<rparr>)) (\<lambda>self.
     setup_rpath inp (setup_flags inp self)))"

section \<open>configure\<close>

text \<open>\<open>shutil.which(name) or name'\<close>: \<open>None\<close> and the empty string both give the default.\<close>

definition which_or :: "inputs \<Rightarrow> string \<Rightarrow> string \<Rightarrow> string" where
  "which_or inp name dflt =
     (case which inp name of None \<Rightarrow> dflt | Some found \<Rightarrow> if found = [] then dflt else found)"

definition pkg_config_bin :: "inputs \<Rightarrow> string" where
  "pkg_config_bin inp = which_or inp ''pkg-config'' ''pkg-config''"

definition cmake_bin :: "inputs \<Rightarrow> string" where
  "cmake_bin inp =
     which_or inp (case getenv inp ''CMAKE_COMMAND'' of None \<Rightarrow> ''cmake'' | Some c \<Rightarrow> c) ''cmake''"

text \<open>Lines 151 to 160: the machine file of the target.\<close>

definition configure_toolchain_file :: "inputs \<Rightarrow> project \<Rightarrow> result" where
  "configure_toolchain_file inp self =
     do_call inp
       (PrepareToolchainFileCommon (toolchain_file self)
          [(''TOOLCHAIN_LINKER'', Scalar (PyPath (linker inp))),
           (''TOOLCHAIN_MESON_CPU_FAMILY'', Scalar (PyStr (meson_cpu_family inp))),
           (''TOOLCHAIN_ENDIANESS'', Scalar (PyStr (endianess inp))),
           (''MESON_EXTRA_BINARIES'', Scalar (PyStr (meson_extra_binaries inp))),
           (''MESON_EXTRA_PROPERTIES'', Scalar (PyStr (meson_extra_properties inp))),
           (''TOOLCHAIN_PKGCONFIG_BINARY'', Scalar (PyStr (pkg_config_bin inp))),
           (''TOOLCHAIN_CMAKE_BINARY'', Scalar (PyStr (cmake_bin inp)))]) self"

text \<open>Lines 161 to 179: the native machine file of a cross build.\<close>

definition configure_native_file :: "inputs \<Rightarrow> project \<Rightarrow> result" where
  "configure_native_file inp self =
     (if \<not> compiling_for_host inp then
        let native_toolchain_template = include_local_file inp ''files/meson-cross-file-native-env.ini.in'';
            host_prefixes = host_dependency_prefixes inp
        in if other_tools_dir inp \<in> set host_prefixes then
             let host_pkg_config_dirs = concat (map (pkgconfig_candidates inp) host_prefixes)
             in case native_toolchain_file inp of
                  Inl e \<Rightarrow> Inl (e, self)
                | Inr nf \<Rightarrow>
                    do_call inp
                      (ReplaceValuesInToolchainFile native_toolchain_template nf
                         [(''NATIVE_C_COMPILER'', Scalar (PyPath (host_CC inp))),
                          (''NATIVE_CXX_COMPILER'', Scalar (PyPath (host_CXX inp))),
                          (''TOOLCHAIN_PKGCONFIG_BINARY'', Scalar (PyStr (pkg_config_bin inp))),
                          (''TOOLCHAIN_CMAKE_BINARY'', Scalar (PyStr (cmake_bin inp))),
                          (''NATIVE_PKG_CONFIG_PATH'', ListV (remove_duplicates host_pkg_config_dirs)),
                          (''NATIVE_CMAKE_PREFIX_PATH'',
                             ListV (remove_duplicates (map PyPath host_prefixes @ cmake_prefix_paths inp)))])
                      self
           else Inl (AssertionError, self)
      else Inr self)"

text \<open>Lines 181 to 185: the install prefix. A path is always true, \<open>None\<close> is false.\<close>

definition configure_prefix :: "inputs \<Rightarrow> project \<Rightarrow> result" where
  "configure_prefix inp self =
     (if install_prefix inp \<noteq> install_dir inp then
        if destdir inp \<noteq> None
        then Inr (add_meson_options inp False True [(''prefix'', PyPath (install_prefix inp))] self)
        else Inl (AssertionError, self)
      else Inr (add_meson_options inp False True [(''prefix'', PyPath (install_dir inp))] self))"

text \<open>Lines 188 to 190: a forced reconfigure clears Meson's dependency cache first.\<close>

definition configure_reconfigure :: "inputs \<Rightarrow> project \<Rightarrow> result" where
  "configure_reconfigure inp self =
     (if force_configure inp \<and> \<not> with_clean inp
         \<and> path_exists self (path_div (build_dir inp) ''meson-info'')
      then do_call inp (RunCmd [configure_command self, ''configure'', ''--clearcache''] (build_dir inp))
             (extend_args [''--reconfigure''] self)
      else Inr self)"

text \<open>
  Lines 191 to 193: the two positional arguments, then the base class's \<open>configure\<close>, which
  runs the command line that \<open>configure_args\<close> holds when it is called.
\<close>

definition configure_invoke :: "inputs \<Rightarrow> project \<Rightarrow> result" where
  "configure_invoke inp self =
     (let self = extend_args [path_str (source_dir inp)] self;
          self = extend_args [path_str (build_dir inp)] self
      in do_call inp (SuperConfigure (configure_args self)) self)"

text \<open>Lines 194 to 196: the compilation database goes back to the source directory.\<close>

definition configure_compilation_db :: "inputs \<Rightarrow> project \<Rightarrow> result" where
  "configure_compilation_db inp self =
     (if copy_compilation_db_to_source_dir inp
         \<and> path_exists self (path_div (build_dir inp) ''compile_commands.json'')
      then do_call inp
             (InstallFile (path_div (build_dir inp) ''compile_commands.json'')
                          (path_div (source_dir inp) ''compile_commands.json'') True) self
      else Inr self)"

text \<open>\<open>MesonProject.configure\<close>\<close>

definition configure :: "inputs \<Rightarrow> project \<Rightarrow> result" where
  "configure inp self =
     and_then (configure_toolchain_file inp self) (\<lambda>self.
     and_then (configure_native_file inp self) (\<lambda>self.
     and_then (configure_prefix inp self) (\<lambda>self.
     and_then (configure_reconfigure inp self) (\<lambda>self.
     and_then (configure_invoke inp self) (\<lambda>self.
     configure_compilation_db inp self)))))"

section \<open>run\_tests\<close>

definition run_tests :: "inputs \<Rightarrow> project \<Rightarrow> result" where
  "run_tests inp self =
     (if compiling_for_host inp then
        do_call inp (RunCmd [configure_command self, ''test'', ''--print-errorlogs''] (build_dir inp)) self
      else if is_cheribsd inp then
        do_call inp
          (RunCheribsdTestScript ''run_meson_tests.py'' (meson_test_script_extra_args inp)
             True True True (tests_need_full_disk_image inp)) self
      else
        info [''Don't know how to run tests for'', target inp,
              ''when cross-compiling for'', crosscompile_target inp] self)"

section \<open>Sequences of calls and example configurations\<close>

text \<open>
  The object after a call: Python keeps the object whether the call returned or raised.
\<close>

definition state_after :: "result \<Rightarrow> project" where
  "state_after r = (case r of Inl (e, self) \<Rightarrow> self | Inr self \<Rightarrow> self)"

text \<open>
  A caller that sets one version floor after the other on the same object:
  \<open>set_versions\<close> lists the outcome of every call, \<open>after_versions\<close> is the object at the end.
\<close>

fun set_versions :: "project \<Rightarrow> version list \<Rightarrow> result list" where
  "set_versions self [] = []"
| "set_versions self ((major, minor, patch) # vs) =
     (let r = set_minimum_meson_version self major minor patch
      in r # set_versions (state_after r) vs)"

fun after_versions :: "project \<Rightarrow> version list \<Rightarrow> project" where
  "after_versions self [] = self"
| "after_versions self ((major, minor, patch) # vs) =
     after_versions (state_after (set_minimum_meson_version self major minor patch)) vs"

text \<open>An object on which nothing has been set, in an empty file system.\<close>

definition fresh_project :: project where
  "fresh_project =
     \<lparr>minimum_cmake_or_meson_version = None, configure_command = [], configure_args = [],
      configure_environment = Map.empty, make_args_env = Map.empty, COMMON_LDFLAGS = [],
      toolchain_template = None, toolchain_file = None, files = {}, trace = []\<rparr>"

text \<open>
  A native build of a project under \<open>/src/proj\<close> in \<open>/build/proj\<close>, with no tool on the
  search path and collaborators that succeed and leave the file system alone.
\<close>

definition example_inputs :: inputs where
  "example_inputs =
     \<lparr>getenv = (\<lambda>name. None), which = (\<lambda>name. None), include_local_file = (\<lambda>name. name),
      ext = (\<lambda>c fs. Some fs),
      compiling_for_host = True, is_freebsd = False, is_baremetal = False, is_cheribsd = False,
      pkg_config_libdir_override = None, additional_rpath_directories = [],
      default_libdir = ''lib'', dependency_install_prefixes = [], rootfs_dir = None,
      linker = Path True [''usr'', ''bin'', ''ld''],
      meson_cpu_family = ''x86_64'', endianess = ''little'',
      meson_extra_binaries = [], meson_extra_properties = [],
      host_CC = Path True [''usr'', ''bin'', ''cc''], host_CXX = Path True [''usr'', ''bin'', ''c++''],
      host_dependency_prefixes = [Path True [''opt'', ''tools'']],
      other_tools_dir = Path True [''opt'', ''tools''],
      pkgconfig_candidates = (\<lambda>prefix. [PyStr (path_str prefix @ ''/lib/pkgconfig'')]),
      cmake_prefix_paths = [],
      build_dir = Path True [''build'', ''proj''], source_dir = Path True [''src'', ''proj''],
      install_dir = Path True [''opt'', ''proj''], install_prefix = Path True [''opt'', ''proj''],
      destdir = None,
      force_configure = False, with_clean = False, use_lto = False, use_asan = False,
      cc_is_clang = True, make_jobs = 8,
      build_type_meson_args = [(''buildtype'', PyStr ''debugoptimized'')],
      meson_options = [], copy_compilation_db_to_source_dir = False,
      target = ''proj'', crosscompile_target = ''native'',
      meson_test_script_extra_args = [], tests_need_full_disk_image = False\<rparr>"

text \<open>
  A cross build for a baremetal target, which has no root file system: the target lists
  \<open>/rootfs/usr/lib\<close> among its additional run-path directories, and the one dependency
  prefix is \<open>/rootfs/usr\<close>.
\<close>

definition no_rootfs_inputs :: inputs where
  "no_rootfs_inputs =
     example_inputs
       \<lparr>compiling_for_host := False, is_baremetal := True,
        additional_rpath_directories := [PyStr ''/rootfs/usr/lib''],
        dependency_install_prefixes := [Path True [''rootfs'', ''usr'']],
        rootfs_dir := None,
        crosscompile_target := ''baremetal-riscv64''\<rparr>"

text \<open>
  A table of printable characters for the examples: of the characters above ASCII it
  holds a Latin letter and one character above \<open>0xFFFF\<close>.
\<close>

definition example_printable :: "nat \<Rightarrow> bool" where
  "example_printable c = (c = 0xE9 \<or> c = 0x1F600)"

section \<open>Auxiliary facts\<close>

lemma tuple_ge_refl: "tuple_ge a a"
  by (cases a) auto

lemma tuple_ge_trans: "tuple_ge a b \<Longrightarrow> tuple_ge b c \<Longrightarrow> tuple_ge a c"
  by (cases a; cases b; cases c) (auto split: if_splits)

lemma tuple_ge_total: "tuple_ge a b \<or> tuple_ge b a"
  by (cases a; cases b) (auto split: if_splits)

lemma tuple_ge_antisym: "tuple_ge a b \<Longrightarrow> tuple_ge b a \<Longrightarrow> a = b"
  by (cases a; cases b) (auto split: if_splits)

lemma tuple_lt_not_ge: "tuple_lt a b \<longleftrightarrow> \<not> tuple_ge a b"
  unfolding tuple_lt_def using tuple_ge_total tuple_ge_antisym tuple_ge_refl by metis

lemma set_versions_sorted:
  "sorted_wrt (\<lambda>a b. tuple_ge b a) vs \<Longrightarrow>
   (case minimum_cmake_or_meson_version self of None \<Rightarrow> True | Some v0 \<Rightarrow> list_all (\<lambda>v. tuple_ge v v0) vs) \<Longrightarrow>
   set_versions self vs = map (\<lambda>v. Inr (self\<lparr>minimum_cmake_or_meson_version := Some v\<rparr>)) vs"
proof (induction vs arbitrary: self)
  case Nil
  then show ?case by simp
next
  case (Cons v vs)
  obtain a b c where v: "v = (a, b, c)" by (cases v)
  have ok: "set_minimum_meson_version self a b c = Inr (self\<lparr>minimum_cmake_or_meson_version := Some v\<rparr>)"
    using Cons.prems(2) by (auto simp: set_minimum_meson_version_def v split: option.splits)
  have "set_versions (self\<lparr>minimum_cmake_or_meson_version := Some v\<rparr>) vs =
        map (\<lambda>w. Inr (self\<lparr>minimum_cmake_or_meson_version := Some v\<rparr>\<lparr>minimum_cmake_or_meson_version := Some w\<rparr>)) vs"
    using Cons.prems(1) by (intro Cons.IH) (auto simp: list_all_iff)
  then show ?case
    using ok by (simp add: v state_after_def)
qed

lemma set_lower_fails:
  "minimum_cmake_or_meson_version self = Some cur \<Longrightarrow> tuple_lt (major, minor, patch) cur \<Longrightarrow>
   set_minimum_meson_version self major minor patch = Inl (AssertionError, self)"
  by (simp add: set_minimum_meson_version_def tuple_lt_not_ge)

lemma init_floor: "init inp base = Inr self \<Longrightarrow> minimum_cmake_or_meson_version self = Some (0, 57, 0)"
  by (auto simp: init_def set_minimum_meson_version_def Let_def split: if_splits)

lemma after_versions_floor:
  "minimum_cmake_or_meson_version self = Some cur \<Longrightarrow> tuple_ge cur lo \<Longrightarrow>
   \<exists>cur'. minimum_cmake_or_meson_version (after_versions self vs) = Some cur' \<and> tuple_ge cur' lo"
proof (induction vs arbitrary: self cur)
  case Nil
  then show ?case by simp
next
  case (Cons v vs)
  obtain a b c where v: "v = (a, b, c)" by (cases v)
  let ?s = "state_after (set_minimum_meson_version self a b c)"
  have "\<exists>cur'. minimum_cmake_or_meson_version ?s = Some cur' \<and> tuple_ge cur' lo"
  proof (cases "tuple_ge (a, b, c) cur")
    case True
    then have "tuple_ge (a, b, c) lo" using Cons.prems(2) tuple_ge_trans by blast
    then show ?thesis
      using True Cons.prems(1)
      by (simp add: set_minimum_meson_version_def state_after_def del: tuple_ge.simps)
  next
    case False
    then show ?thesis
      using Cons.prems
      by (simp add: set_minimum_meson_version_def state_after_def del: tuple_ge.simps)
  qed
  then obtain cur' where "minimum_cmake_or_meson_version ?s = Some cur'" "tuple_ge cur' lo"
    by blast
  from Cons.IH[OF this] show ?case by (simp add: v)
qed

lemma and_then_Inr: "and_then r f = Inr s \<longleftrightarrow> (\<exists>s1. r = Inr s1 \<and> f s1 = Inr s)"
  by (cases r) (auto simp: and_then_def)


lemma do_call_Inr:
  "do_call inp c self = Inr s \<longleftrightarrow>
     (\<exists>fs. ext inp c (files self) = Some fs \<and> s = self\<lparr>trace := trace self @ [c], files := fs\<rparr>)"
  by (auto simp: do_call_def Let_def split: option.splits)




lemma remove_duplicates_from_set:
  "set (remove_duplicates_from seen xs) = set seen \<union> set xs"
  by (induction xs arbitrary: seen) auto

lemma remove_duplicates_from_distinct:
  "distinct seen \<Longrightarrow> distinct (remove_duplicates_from seen xs)"
  by (induction xs arbitrary: seen) auto

lemma map_filter_upt_Suc:
  "map f (filter P [0..<Suc n]) =
     (if P 0 then [f 0] else []) @ map (\<lambda>i. f (Suc i)) (filter (\<lambda>i. P (Suc i)) [0..<n])"
proof -
  have "[0..<Suc n] = 0 # map Suc [0..<n]"
    by (simp add: upt_conv_Cons map_Suc_upt del: upt_Suc)
  then show ?thesis by (simp add: filter_map o_def del: upt_Suc)
qed

lemma remove_duplicates_from_first:
  "remove_duplicates_from seen xs =
     seen @ map ((!) xs) (filter (\<lambda>i. xs ! i \<notin> set seen \<union> set (take i xs)) [0..<length xs])"
proof (induction xs arbitrary: seen)
  case Nil
  then show ?case by simp
next
  case (Cons x xs)
  define seen' where "seen' = (if x \<in> set seen then seen else seen @ [x])"
  define P where "P = (\<lambda>i. (x # xs) ! i \<notin> set seen \<union> set (take i (x # xs)))"
  define Q where "Q = (\<lambda>i. xs ! i \<notin> set seen' \<union> set (take i xs))"
  have later: "filter (\<lambda>i. P (Suc i)) [0..<length xs] = filter Q [0..<length xs]"
    by (rule filter_cong) (auto simp: seen'_def P_def Q_def)
  have first: "P 0 \<longleftrightarrow> x \<notin> set seen" by (simp add: P_def)
  have "map ((!) (x # xs)) (filter P [0..<length (x # xs)])
        = (if x \<in> set seen then [] else [x]) @ map ((!) xs) (filter Q [0..<length xs])"
    using map_filter_upt_Suc[of "(!) (x # xs)" P "length xs"]
    by (simp add: later first del: upt_Suc)
  moreover have "remove_duplicates_from seen (x # xs) = seen' @ map ((!) xs) (filter Q [0..<length xs])"
    using Cons.IH[of seen'] by (simp add: seen'_def Q_def)
  ultimately show ?case by (simp add: seen'_def P_def del: upt_Suc)
qed

lemma remove_duplicates_distinct: "distinct (remove_duplicates xs)"
  by (simp add: remove_duplicates_def remove_duplicates_from_distinct)

lemma remove_duplicates_set: "set (remove_duplicates xs) = set xs"
  by (simp add: remove_duplicates_def remove_duplicates_from_set)

lemma remove_duplicates_first:
  "remove_duplicates xs = map ((!) xs) (filter (\<lambda>i. xs ! i \<notin> set (take i xs)) [0..<length xs])"
  by (simp add: remove_duplicates_def remove_duplicates_from_first)

lemma distinct_count_list: "distinct ys \<Longrightarrow> count_list ys x = (if x \<in> set ys then 1 else 0)"
  by (induction ys) auto

lemma remove_duplicates_count:
  "count_list (remove_duplicates xs) x = (if x \<in> set xs then 1 else 0)"
  using distinct_count_list[OF remove_duplicates_distinct, of xs x] by (simp add: remove_duplicates_set)

lemma list_all_upt: "list_all P [a..<b] \<longleftrightarrow> (\<forall>c. a \<le> c \<and> c < b \<longrightarrow> P c)"
  by (auto simp: list_all_iff)

lemma printable_not_surrogate:
  "surrogates_not_printable isprintable \<Longrightarrow> \<forall>c. isprintable c \<longrightarrow> \<not> is_surrogate c"
  unfolding surrogates_not_printable_def list_all_upt is_surrogate_def by auto

lemma hex_digits_numeral:
  "hex_digits 2 n = [hex_digit (n div 16 mod 16), hex_digit (n mod 16)]"
  "hex_digits 4 n = [hex_digit (n div 4096 mod 16), hex_digit (n div 256 mod 16),
                     hex_digit (n div 16 mod 16), hex_digit (n mod 16)]"
  "hex_digits 8 n = [hex_digit (n div 268435456 mod 16), hex_digit (n div 16777216 mod 16),
                     hex_digit (n div 1048576 mod 16), hex_digit (n div 65536 mod 16),
                     hex_digit (n div 4096 mod 16), hex_digit (n div 256 mod 16),
                     hex_digit (n div 16 mod 16), hex_digit (n mod 16)]"
proof -
  have two: "(2::nat) = Suc (Suc 0)" and four: "(4::nat) = Suc (Suc (Suc (Suc 0)))"
    and eight: "(8::nat) = Suc (Suc (Suc (Suc (Suc (Suc (Suc (Suc 0)))))))"
    by simp_all
  show "hex_digits 2 n = [hex_digit (n div 16 mod 16), hex_digit (n mod 16)]"
    unfolding two by simp
  show "hex_digits 4 n = [hex_digit (n div 4096 mod 16), hex_digit (n div 256 mod 16),
                     hex_digit (n div 16 mod 16), hex_digit (n mod 16)]"
    unfolding four by simp
  show "hex_digits 8 n = [hex_digit (n div 268435456 mod 16), hex_digit (n div 16777216 mod 16),
                     hex_digit (n div 1048576 mod 16), hex_digit (n div 65536 mod 16),
                     hex_digit (n div 4096 mod 16), hex_digit (n div 256 mod 16),
                     hex_digit (n div 16 mod 16), hex_digit (n mod 16)]"
    unfolding eight by simp
qed

lemma hex_val_hex_digit:
  assumes "d < 16"
  shows "hex_val (hex_digit d) = Some d"
proof -
  have "list_all (\<lambda>k. hex_val (hex_digit k) = Some k) [0..<16]"
    by code_simp
  with assms show ?thesis
    by (simp add: list_all_iff)
qed

lemma hex_digit_range:
  assumes "d < 16"
  shows "0x20 \<le> hex_digit d \<and> hex_digit d \<noteq> 0x7F"
proof -
  have "list_all (\<lambda>k. 0x20 \<le> hex_digit k \<and> hex_digit k \<noteq> 0x7F) [0..<16]"
    by code_simp
  with assms show ?thesis
    by (simp add: list_all_iff)
qed

lemma length_hex_digits: "length (hex_digits k n) = k"
  by (induction k) auto

lemma hex_digits_range: "list_all (\<lambda>c. 0x20 \<le> c \<and> c \<noteq> 0x7F) (hex_digits k n)"
  by (induction k) (auto simp: hex_digit_range)

lemma hex_value_from_digits:
  "hex_value_from acc (hex_digits k n) = Some (acc * 16 ^ k + n mod 16 ^ k)"
proof (induction k arbitrary: acc)
  case 0
  then show ?case by simp
next
  case (Suc k)
  have split: "n mod 16 ^ Suc k = 16 ^ k * (n div 16 ^ k mod 16) + n mod 16 ^ k"
    using mod_mult2_eq[of n "16 ^ k" 16] by (simp add: mult.commute)
  have "hex_value_from acc (hex_digits (Suc k) n)
        = hex_value_from (16 * acc + n div 16 ^ k mod 16) (hex_digits k n)"
    by (simp add: hex_val_hex_digit)
  also have "\<dots> = Some ((16 * acc + n div 16 ^ k mod 16) * 16 ^ k + n mod 16 ^ k)"
    by (rule Suc.IH)
  also have "(16 * acc + n div 16 ^ k mod 16) * 16 ^ k + n mod 16 ^ k
        = acc * 16 ^ Suc k + n mod 16 ^ Suc k"
    unfolding split by (simp add: algebra_simps)
  finally show ?case .
qed

lemma read_hex_digits:
  assumes "n < 16 ^ k"
  shows "read_hex k (hex_digits k n @ rest) = Some n"
    and "drop k (hex_digits k n @ rest) = rest"
  using assms by (simp_all add: read_hex_def length_hex_digits hex_value_from_digits)

lemma quote_chars:
  "squote \<noteq> backslash" "dquote \<noteq> backslash" "squote \<noteq> dquote"
  by (simp_all add: squote_def dquote_def backslash_def)

lemma escape_letters:
  "uchr CHR ''t'' = 0x74" "uchr CHR ''n'' = 0x6E" "uchr CHR ''r'' = 0x72"
  "uchr CHR ''x'' = 0x78" "uchr CHR ''u'' = 0x75" "uchr CHR ''U'' = 0x55"
  by (simp_all add: uchr_def)

lemma read_chars_escape:
  assumes "quote = squote \<or> quote = dquote" "n < 16 ^ k"
    and "(k = 2 \<and> e = uchr CHR ''x'') \<or> (k = 4 \<and> e = uchr CHR ''u'')
         \<or> (k = 8 \<and> e = uchr CHR ''U'' \<and> n \<le> 0x10FFFF)"
  shows "read_chars quote (backslash # e # hex_digits k n @ rest)
         = read_more n (read_chars quote rest)"
proof -
  have q: "backslash \<noteq> quote" using assms(1) quote_chars by auto
  note h = read_hex_digits[OF assms(2), of rest]
  from assms(3) show ?thesis
  proof (elim disjE conjE)
    assume "k = 2" "e = uchr CHR ''x''"
    then show ?thesis
      using q h by (simp add: escape_letters squote_def dquote_def backslash_def)
  next
    assume "k = 4" "e = uchr CHR ''u''"
    then show ?thesis
      using q h by (simp add: escape_letters squote_def dquote_def backslash_def)
  next
    assume "k = 8" "e = uchr CHR ''U''" "n \<le> 0x10FFFF"
    then show ?thesis
      using q h by (simp add: escape_letters squote_def dquote_def backslash_def)
  qed
qed

lemma read_chars_plain_escape:
  assumes "quote = squote \<or> quote = dquote"
    and "e = backslash \<or> e = squote \<or> e = dquote"
  shows "read_chars quote (backslash # e # rest) = read_more e (read_chars quote rest)"
proof -
  have q: "backslash \<noteq> quote" using assms(1) quote_chars by auto
  show ?thesis using q assms(2) by simp
qed

lemma read_chars_letter_escape:
  assumes "quote = squote \<or> quote = dquote"
  shows "read_chars quote (backslash # uchr CHR ''t'' # rest) = read_more 0x09 (read_chars quote rest)"
    and "read_chars quote (backslash # uchr CHR ''n'' # rest) = read_more 0x0A (read_chars quote rest)"
    and "read_chars quote (backslash # uchr CHR ''r'' # rest) = read_more 0x0D (read_chars quote rest)"
proof -
  have q: "backslash \<noteq> quote" using assms(1) quote_chars by auto
  show "read_chars quote (backslash # uchr CHR ''t'' # rest) = read_more 0x09 (read_chars quote rest)"
    using q by (simp add: escape_letters squote_def dquote_def backslash_def)
  show "read_chars quote (backslash # uchr CHR ''n'' # rest) = read_more 0x0A (read_chars quote rest)"
    using q by (simp add: escape_letters squote_def dquote_def backslash_def)
  show "read_chars quote (backslash # uchr CHR ''r'' # rest) = read_more 0x0D (read_chars quote rest)"
    using q by (simp add: escape_letters squote_def dquote_def backslash_def)
qed

lemma read_chars_itself:
  assumes "c \<noteq> quote" "c \<noteq> backslash" "stands_for_itself c"
  shows "read_chars quote (c # rest) = read_more c (read_chars quote rest)"
  using assms by simp

lemma repr_char_cases:
  assumes "ch < 0x110000"
  shows "((ch = quote \<or> ch = backslash) \<and> repr_char isprintable quote ch = [backslash, ch])
    \<or> (ch = 0x09 \<and> repr_char isprintable quote ch = [backslash, uchr CHR ''t''])
    \<or> (ch = 0x0A \<and> repr_char isprintable quote ch = [backslash, uchr CHR ''n''])
    \<or> (ch = 0x0D \<and> repr_char isprintable quote ch = [backslash, uchr CHR ''r''])
    \<or> (ch < 0x100 \<and> repr_char isprintable quote ch = backslash # uchr CHR ''x'' # hex_digits 2 ch)
    \<or> (ch < 0x10000 \<and> repr_char isprintable quote ch = backslash # uchr CHR ''u'' # hex_digits 4 ch)
    \<or> (repr_char isprintable quote ch = backslash # uchr CHR ''U'' # hex_digits 8 ch)
    \<or> (ch \<noteq> quote \<and> ch \<noteq> backslash \<and> 0x20 \<le> ch \<and> (ch < 0x7F \<or> isprintable ch)
         \<and> repr_char isprintable quote ch = [ch])"
  unfolding repr_char_def by (simp del: hex_digits.simps)

lemma read_chars_repr_char:
  assumes "quote = squote \<or> quote = dquote" "ch < 0x110000"
    and "isprintable ch \<longrightarrow> \<not> is_surrogate ch"
  shows "read_chars quote (repr_char isprintable quote ch @ rest)
         = read_more ch (read_chars quote rest)"
proof -
  let ?r = "repr_char isprintable quote ch"
  from repr_char_cases[OF assms(2), of quote isprintable]
  consider (esc) "ch = quote \<or> ch = backslash" "?r = [backslash, ch]"
    | (tab) "ch = 0x09" "?r = [backslash, uchr CHR ''t'']"
    | (nl) "ch = 0x0A" "?r = [backslash, uchr CHR ''n'']"
    | (cr) "ch = 0x0D" "?r = [backslash, uchr CHR ''r'']"
    | (x) "ch < 0x100" "?r = backslash # uchr CHR ''x'' # hex_digits 2 ch"
    | (u) "ch < 0x10000" "?r = backslash # uchr CHR ''u'' # hex_digits 4 ch"
    | (U) "?r = backslash # uchr CHR ''U'' # hex_digits 8 ch"
    | (raw) "ch \<noteq> quote" "ch \<noteq> backslash" "0x20 \<le> ch" "ch < 0x7F \<or> isprintable ch" "?r = [ch]"
    by blast
  then show ?thesis
  proof cases
    case esc
    have "ch = backslash \<or> ch = squote \<or> ch = dquote" using esc(1) assms(1) by blast
    from read_chars_plain_escape[OF assms(1) this, of rest] show ?thesis
      by (simp only: esc(2) append.simps)
  next
    case tab
    show ?thesis
      unfolding tab(2) append.simps unfolding tab(1)
      by (rule read_chars_letter_escape(1)[OF assms(1)])
  next
    case nl
    show ?thesis
      unfolding nl(2) append.simps unfolding nl(1)
      by (rule read_chars_letter_escape(2)[OF assms(1)])
  next
    case cr
    show ?thesis
      unfolding cr(2) append.simps unfolding cr(1)
      by (rule read_chars_letter_escape(3)[OF assms(1)])
  next
    case x
    have "ch < 16 ^ 2" using x(1) by simp
    from read_chars_escape[OF assms(1) this, of "uchr CHR ''x''" rest] show ?thesis
      by (simp only: x(2) append.simps simp_thms)
  next
    case u
    have "ch < 16 ^ 4" using u(1) by simp
    from read_chars_escape[OF assms(1) this, of "uchr CHR ''u''" rest] show ?thesis
      by (simp only: u(2) append.simps simp_thms)
  next
    case U
    have b: "ch < 16 ^ 8" using assms(2) by simp
    have "ch \<le> 0x10FFFF" using assms(2) by simp
    with read_chars_escape[OF assms(1) b, of "uchr CHR ''U''" rest] show ?thesis
      by (simp only: U append.simps simp_thms)
  next
    case raw
    have "\<not> is_surrogate ch"
      using raw(3,4) assms(3) by (auto simp: is_surrogate_def)
    then have "stands_for_itself ch"
      using raw(3) assms(2) by (simp add: stands_for_itself_def)
    from read_chars_itself[OF raw(1,2) this, of rest] show ?thesis
      by (simp only: raw(5) append.simps)
  qed
qed

lemma repr_char_range:
  "list_all (\<lambda>c. 0x20 \<le> c \<and> c \<noteq> 0x7F) (repr_char isprintable quote ch)"
  if "quote = squote \<or> quote = dquote"
  using that hex_digits_range[of 2 ch] hex_digits_range[of 4 ch] hex_digits_range[of 8 ch]
  by (auto simp: repr_char_def escape_letters squote_def dquote_def backslash_def)

lemma read_chars_repr:
  assumes "quote = squote \<or> quote = dquote" "valid_text s"
    and "\<forall>c. isprintable c \<longrightarrow> \<not> is_surrogate c"
  shows "read_chars quote (concat (map (repr_char isprintable quote) s) @ quote # rest) = Some (s, rest)"
  using assms(2)
proof (induction s)
  case Nil
  then show ?case by simp
next
  case (Cons ch s)
  then have "ch < 0x110000" "valid_text s" by (simp_all add: valid_text_def)
  then show ?case
    using read_chars_repr_char[OF assms(1), of ch isprintable] assms(3) Cons.IH
    by (simp add: read_more_def)
qed

lemma repr_str_read:
  assumes "valid_text s" "\<forall>c. isprintable c \<longrightarrow> \<not> is_surrogate c"
  shows "\<exists>quote body. (quote = squote \<or> quote = dquote) \<and> repr_str isprintable s = quote # body
     \<and> (\<forall>rest. read_chars quote (body @ rest) = Some (s, rest))"
proof -
  define quote where "quote = (if squote \<in> set s \<and> dquote \<notin> set s then dquote else squote)"
  have q: "quote = squote \<or> quote = dquote" by (simp add: quote_def)
  have "repr_str isprintable s = quote # (concat (map (repr_char isprintable quote) s) @ [quote])"
    by (simp add: repr_str_def quote_def)
  moreover have "read_chars quote ((concat (map (repr_char isprintable quote) s) @ [quote]) @ rest)
      = Some (s, rest)" for rest
    using read_chars_repr[OF q assms, of rest] by simp
  ultimately show ?thesis using q by blast
qed

lemma repr_str_range:
  "list_all (\<lambda>c. 0x20 \<le> c \<and> c \<noteq> 0x7F) (repr_str isprintable s)"
proof -
  define quote where "quote = (if squote \<in> set s \<and> dquote \<notin> set s then dquote else squote)"
  have q: "quote = squote \<or> quote = dquote" by (simp add: quote_def)
  have "0x20 \<le> quote \<and> quote \<noteq> 0x7F" using q by (auto simp: squote_def dquote_def)
  moreover have "list_all (\<lambda>c. 0x20 \<le> c \<and> c \<noteq> 0x7F) (concat (map (repr_char isprintable quote) s))"
    using repr_char_range[OF q] by (induction s) auto
  ultimately show ?thesis
    by (simp add: repr_str_def quote_def[symmetric] Let_def)
qed

lemma read_items_last:
  assumes "valid_text x" "\<forall>c. isprintable c \<longrightarrow> \<not> is_surrogate c"
  shows "read_items (repr_str isprintable x @ ustr '']'') = Some [x]"
proof -
  obtain quote body where q: "quote = squote \<or> quote = dquote"
    and r: "repr_str isprintable x = quote # body"
    and rd: "\<And>rest. read_chars quote (body @ rest) = Some (x, rest)"
    using repr_str_read[OF assms] by blast
  show ?thesis using q by (simp add: r rd ustr_def)
qed

lemma read_items_next:
  assumes "valid_text x" "\<forall>c. isprintable c \<longrightarrow> \<not> is_surrogate c"
  shows "read_items (repr_str isprintable x @ ustr '', '' @ tail) = map_option ((#) x) (read_items tail)"
proof -
  obtain quote body where q: "quote = squote \<or> quote = dquote"
    and r: "repr_str isprintable x = quote # body"
    and rd: "\<And>rest. read_chars quote (body @ rest) = Some (x, rest)"
    using repr_str_read[OF assms] by blast
  show ?thesis using q by (simp add: r rd ustr_def)
qed

lemma read_items_join:
  assumes "\<forall>c. isprintable c \<longrightarrow> \<not> is_surrogate c"
  shows "xs \<noteq> [] \<Longrightarrow> list_all valid_text xs \<Longrightarrow>
     read_items (str_join (ustr '', '') (map (repr_str isprintable) xs) @ ustr '']'') = Some xs"
proof (induction xs)
  case Nil
  then show ?case by simp
next
  case (Cons x xs)
  then have v: "valid_text x" "list_all valid_text xs" by simp_all
  show ?case
  proof (cases xs)
    case Nil
    then show ?thesis using read_items_last[OF v(1) assms] by simp
  next
    case (Cons y ys)
    then have "read_items (str_join (ustr '', '') (map (repr_str isprintable) xs) @ ustr '']'') = Some xs"
      using Cons.IH v(2) by simp
    then show ?thesis
      using read_items_next[OF v(1) assms,
          of "str_join (ustr '', '') (map (repr_str isprintable) xs) @ ustr '']''"] Cons
      by simp
  qed
qed

lemma repr_str_not_bracket:
  "str_join (ustr '', '') (map (repr_str isprintable) (x # xs)) @ ustr '']'' \<noteq> ustr '']''"
proof -
  have "length (repr_str isprintable x) \<ge> 2" by (simp add: repr_str_def Let_def)
  then have "length (str_join (ustr '', '') (map (repr_str isprintable) (x # xs)) @ ustr '']'') \<ge> 3"
    by (cases xs) (simp_all add: ustr_def)
  then show ?thesis by (auto simp: ustr_def)
qed

lemma read_repr_str_list:
  assumes "list_all valid_text xs" "\<forall>c. isprintable c \<longrightarrow> \<not> is_surrogate c"
  shows "read_str_list (repr_str_list isprintable xs) = Some xs"
proof (cases xs)
  case Nil
  then show ?thesis by (simp add: read_str_list_def repr_str_list_def ustr_def)
next
  case (Cons x xs')
  then show ?thesis
    using repr_str_not_bracket[of isprintable x xs'] read_items_join[OF assms(2), of xs] assms(1)
    by (simp add: read_str_list_def repr_str_list_def ustr_def)
qed

lemma repr_str_list_range:
  "list_all (\<lambda>c. 0x20 \<le> c \<and> c \<noteq> 0x7F) (repr_str_list isprintable xs)"
proof -
  have "list_all (\<lambda>c. 0x20 \<le> c \<and> c \<noteq> 0x7F)
          (str_join (ustr '', '') (map (repr_str isprintable) xs))"
  proof (induction xs)
    case Nil
    then show ?case by simp
  next
    case (Cons x xs)
    then show ?case
      using repr_str_range[of isprintable x] by (cases xs) (simp_all add: ustr_def uchr_def)
  qed
  then show ?thesis by (simp add: repr_str_list_def ustr_def uchr_def)
qed

lemma reader_refuses_unescaped_line_feed:
  "read_str_list (ustr ''['' @ [squote, 0x0A, squote] @ ustr '']'') = None"
  by (simp add: read_str_list_def ustr_def uchr_def squote_def dquote_def backslash_def
      stands_for_itself_def)

lemma add_configure_options_fields:
  "files (add_configure_options cfo r iev kw s) = files s
   \<and> trace (add_configure_options cfo r iev kw s) = trace s
   \<and> COMMON_LDFLAGS (add_configure_options cfo r iev kw s) = COMMON_LDFLAGS s
   \<and> configure_command (add_configure_options cfo r iev kw s) = configure_command s"
  by (induction kw arbitrary: s) auto

lemma count_list_filter_keep: "P x \<Longrightarrow> count_list (filter P xs) x = count_list xs x"
  by (induction xs) auto

lemma reconfigure_is_no_option: "\<not> is_option_for option ''--reconfigure''"
  by (simp add: is_option_for_def numeral_3_eq_3)

lemma option_arg_not_reconfigure: "option_arg option v \<noteq> ''--reconfigure''"
  by (simp add: option_arg_def)

lemma add_configure_options_count:
  "count_list (configure_args (add_configure_options cfo r iev kw s)) ''--reconfigure''
     = count_list (configure_args s) ''--reconfigure''"
proof (induction kw arbitrary: s)
  case Nil
  then show ?case by simp
next
  case (Cons kv kw)
  obtain k v where kv: "kv = (k, v)" by (cases kv)
  show ?case
    unfolding kv add_configure_options.simps Cons.IH
    using count_list_filter_keep[of "\<lambda>arg. \<not> is_option_for k arg" "''--reconfigure''" "configure_args s"]
      reconfigure_is_no_option[of k] option_arg_not_reconfigure[of k v]
    by simp
qed

lemma configure_toolchain_file_Inr:
  "configure_toolchain_file inp s = Inr s' \<Longrightarrow>
   configure_args s' = configure_args s \<and> configure_command s' = configure_command s
   \<and> (\<exists>c fs. ext inp c (files s) = Some fs \<and> files s' = fs)"
  by (auto simp: configure_toolchain_file_def do_call_Inr)


lemma configure_native_file_Inr:
  "configure_native_file inp s = Inr s' \<Longrightarrow>
   configure_args s' = configure_args s \<and> configure_command s' = configure_command s
   \<and> (files s' = files s \<or> (\<exists>c fs. ext inp c (files s) = Some fs \<and> files s' = fs))"
  by (auto simp: configure_native_file_def do_call_Inr Let_def split: if_splits sum.splits)


lemma configure_prefix_Inr:
  "configure_prefix inp s = Inr s' \<Longrightarrow>
   (install_prefix inp \<noteq> install_dir inp \<longrightarrow> destdir inp \<noteq> None)
   \<and> configure_args s' = filter (\<lambda>arg. \<not> is_option_for ''prefix'' arg) (configure_args s)
        @ [''-Dprefix='' @ path_str (install_prefix inp)]
   \<and> configure_command s' = configure_command s \<and> files s' = files s"
  by (auto simp: configure_prefix_def add_meson_options_def option_arg_def split: if_splits)


lemma configure_reconfigure_Inr:
  "configure_reconfigure inp s = Inr s' \<Longrightarrow>
   (if force_configure inp \<and> \<not> with_clean inp \<and> path_div (build_dir inp) ''meson-info'' \<in> files s
    then configure_args s' = configure_args s @ [''--reconfigure'']
       \<and> trace s' = trace s @ [RunCmd [configure_command s, ''configure'', ''--clearcache''] (build_dir inp)]
    else s' = s)
   \<and> configure_command s' = configure_command s"
  by (auto simp: configure_reconfigure_def do_call_Inr extend_args_def path_exists_def split: if_splits)

lemma configure_invoke_Inr:
  "configure_invoke inp s = Inr s' \<Longrightarrow>
   configure_args s' = configure_args s @ [path_str (source_dir inp), path_str (build_dir inp)]
   \<and> trace s' = trace s @ [SuperConfigure (configure_args s')]"
  by (auto simp: configure_invoke_def do_call_Inr extend_args_def Let_def)

lemma configure_compilation_db_Inr:
  "configure_compilation_db inp s = Inr s' \<Longrightarrow>
   configure_args s' = configure_args s \<and> (\<exists>calls. trace s' = trace s @ calls)"
  by (auto simp: configure_compilation_db_def do_call_Inr split: if_splits)

lemma configure_Inr:
  assumes "configure inp self = Inr self'"
  shows "\<exists>s1 s2 s3 s4 s5.
           configure_toolchain_file inp self = Inr s1 \<and> configure_native_file inp s1 = Inr s2
         \<and> configure_prefix inp s2 = Inr s3 \<and> configure_reconfigure inp s3 = Inr s4
         \<and> configure_invoke inp s4 = Inr s5 \<and> configure_compilation_db inp s5 = Inr self'"
  using assms unfolding configure_def and_then_Inr by blast

lemma setup_toolchain_file_Inr:
  "setup_toolchain_file inp s = Inr s' \<Longrightarrow>
   files s' = files s \<and> configure_command s' = configure_command s
   \<and> COMMON_LDFLAGS s' = COMMON_LDFLAGS s
   \<and> (\<exists>extra. configure_args s' = configure_args s @ extra)"
  by (auto simp: setup_toolchain_file_def extend_args_def Let_def
      split: if_splits sum.splits option.splits)

lemma setup_flags_fields:
  "files (setup_flags inp s) = files s \<and> configure_command (setup_flags inp s) = configure_command s
   \<and> COMMON_LDFLAGS (setup_flags inp s) = COMMON_LDFLAGS s"
  by (simp add: setup_flags_def Let_def add_meson_options_def add_configure_options_fields
      extend_args_def del: add_configure_options.simps)

lemma setup_flags_count:
  "count_list (configure_args (setup_flags inp s)) ''--reconfigure''
     = count_list (configure_args s) ''--reconfigure''
       + (if force_configure inp \<and> \<not> with_clean inp
             \<and> path_div (build_dir inp) ''meson-info'' \<in> files s then 1 else 0)"
  by (simp add: setup_flags_def Let_def add_meson_options_def add_configure_options_count
      add_configure_options_fields extend_args_def path_exists_def
      del: add_configure_options.simps)

lemma setup_rpath_Inr:
  "setup_rpath inp s = Inr s' \<Longrightarrow>
   configure_args s' = configure_args s \<and> files s' = files s
   \<and> configure_command s' = configure_command s"
  by (auto simp: setup_rpath_def split: if_splits sum.splits)

lemma setup_project_Inr:
  assumes "setup_project inp self = Inr self'"
  shows "\<exists>fs s1 s2. ext inp SuperSetup (files self) = Some fs
           \<and> s1 = self\<lparr>trace := trace self @ [SuperSetup], files := fs,
                        toolchain_template := Some (include_local_file inp ''files/meson-machine-file.ini.in'')\<rparr>
           \<and> setup_toolchain_file inp s1 = Inr s2
           \<and> setup_rpath inp (setup_flags inp s2) = Inr self'"
  using assms unfolding setup_project_def and_then_Inr do_call_Inr by auto

lemma rootfs_relative_length: "rootfs_relative inp ps = Inr qs \<Longrightarrow> length qs = length ps"
  by (induction ps arbitrary: qs) (auto split: option.splits sum.splits)

lemma rpath_dirs_Inr:
  assumes "rpath_dirs inp = Inr dirs"
  shows "\<exists>extra_libdirs. dirs = remove_duplicates (additional_rpath_directories inp @ extra_libdirs)
      \<and> length extra_libdirs = length (dependency_install_prefixes inp)"
proof -
  let ?libdirs = "map (\<lambda>s. path_div s (default_libdir inp)) (dependency_install_prefixes inp)"
  show ?thesis
  proof (cases "rootfs_relative inp ?libdirs")
    case (Inl e)
    then have "dirs = remove_duplicates (additional_rpath_directories inp @ map PyPath ?libdirs)"
      using assms by (cases e) (simp_all add: rpath_dirs_def)
    moreover have "length (map PyPath ?libdirs) = length (dependency_install_prefixes inp)"
      by simp
    ultimately show ?thesis by blast
  next
    case (Inr stripped)
    then have "dirs = remove_duplicates (additional_rpath_directories inp @ stripped)"
      using assms by (simp add: rpath_dirs_def)
    moreover have "length stripped = length (dependency_install_prefixes inp)"
      using rootfs_relative_length[OF Inr] by simp
    ultimately show ?thesis by blast
  qed
qed

lemma setup_flags_ldflags: "COMMON_LDFLAGS (setup_flags inp s) = COMMON_LDFLAGS s"
  using setup_flags_fields by simp

lemma setup_rpath_ldflags:
  assumes "\<not> compiling_for_host inp" "setup_rpath inp s = Inr s'"
  shows "\<exists>dirs. rpath_dirs inp = Inr dirs
           \<and> COMMON_LDFLAGS s' = COMMON_LDFLAGS s
                @ (if dirs = [] then [] else [''-Wl,-rpath='' @ str_join '':'' (map py_str dirs)])"
proof (cases "rpath_dirs inp")
  case (Inl e)
  then show ?thesis using assms by (simp add: setup_rpath_def)
next
  case (Inr dirs)
  then have "s' = (if dirs \<noteq> []
                 then s\<lparr>COMMON_LDFLAGS :=
                        COMMON_LDFLAGS s @ [''-Wl,-rpath='' @ str_join '':'' (map py_str dirs)]\<rparr>
                 else s)"
    using assms by (simp add: setup_rpath_def)
  then show ?thesis using Inr by simp
qed

lemma setup_project_ldflags:
  assumes "\<not> compiling_for_host inp" "setup_project inp self = Inr self'"
  shows "\<exists>dirs. rpath_dirs inp = Inr dirs
           \<and> COMMON_LDFLAGS self' = COMMON_LDFLAGS self
                @ (if dirs = [] then [] else [''-Wl,-rpath='' @ str_join '':'' (map py_str dirs)])"
proof -
  obtain fs s1 s2 where s: "s1 = self\<lparr>trace := trace self @ [SuperSetup], files := fs,
                 toolchain_template := Some (include_local_file inp ''files/meson-machine-file.ini.in'')\<rparr>"
      "setup_toolchain_file inp s1 = Inr s2" "setup_rpath inp (setup_flags inp s2) = Inr self'"
    using setup_project_Inr[OF assms(2)] by blast
  have "COMMON_LDFLAGS (setup_flags inp s2) = COMMON_LDFLAGS self"
    using setup_toolchain_file_Inr[OF s(2)] by (simp add: setup_flags_ldflags s(1))
  then show ?thesis
    using setup_rpath_ldflags[OF assms(1) s(3)] by simp
qed

lemma configure_native_file_lists:
  assumes "\<not> compiling_for_host inp" "configure_native_file inp self = Inr self'"
  shows "\<exists>template file kwargs.
           trace self' = trace self @ [ReplaceValuesInToolchainFile template file kwargs]
         \<and> map_of kwargs ''NATIVE_PKG_CONFIG_PATH''
             = Some (ListV (remove_duplicates
                  (concat (map (pkgconfig_candidates inp) (host_dependency_prefixes inp)))))
         \<and> map_of kwargs ''NATIVE_CMAKE_PREFIX_PATH''
             = Some (ListV (remove_duplicates
                  (map PyPath (host_dependency_prefixes inp) @ cmake_prefix_paths inp)))"
proof -
  define kwargs where "kwargs =
     [(''NATIVE_C_COMPILER'', Scalar (PyPath (host_CC inp))),
      (''NATIVE_CXX_COMPILER'', Scalar (PyPath (host_CXX inp))),
      (''TOOLCHAIN_PKGCONFIG_BINARY'', Scalar (PyStr (pkg_config_bin inp))),
      (''TOOLCHAIN_CMAKE_BINARY'', Scalar (PyStr (cmake_bin inp))),
      (''NATIVE_PKG_CONFIG_PATH'', ListV (remove_duplicates
          (concat (map (pkgconfig_candidates inp) (host_dependency_prefixes inp))))),
      (''NATIVE_CMAKE_PREFIX_PATH'',
         ListV (remove_duplicates (map PyPath (host_dependency_prefixes inp) @ cmake_prefix_paths inp)))]"
  let ?c = "ReplaceValuesInToolchainFile
              (include_local_file inp ''files/meson-cross-file-native-env.ini.in'')
              (path_div (build_dir inp) ''meson-native-file.ini'') kwargs"
  have "configure_native_file inp self =
          (if other_tools_dir inp \<in> set (host_dependency_prefixes inp)
           then do_call inp ?c self else Inl (AssertionError, self))"
    using assms(1) by (simp add: configure_native_file_def native_toolchain_file_def kwargs_def Let_def)
  then have "do_call inp ?c self = Inr self'"
    using assms(2) by (simp split: if_splits)
  then have "trace self' = trace self @ [?c]"
    unfolding do_call_Inr by auto
  moreover have "map_of kwargs ''NATIVE_PKG_CONFIG_PATH''
             = Some (ListV (remove_duplicates
                  (concat (map (pkgconfig_candidates inp) (host_dependency_prefixes inp)))))"
    by (simp add: kwargs_def)
  moreover have "map_of kwargs ''NATIVE_CMAKE_PREFIX_PATH''
             = Some (ListV (remove_duplicates
                  (map PyPath (host_dependency_prefixes inp) @ cmake_prefix_paths inp)))"
    by (simp add: kwargs_def)
  ultimately show ?thesis by blast
qed

lemma rootfs_relative_no_rootfs:
  "rootfs_dir inp = None \<Longrightarrow> ps \<noteq> [] \<Longrightarrow> rootfs_relative inp ps = Inl LookupError"
  by (cases ps) simp_all

lemma rpath_dirs_no_rootfs:
  assumes "rootfs_dir inp = None" "dependency_install_prefixes inp \<noteq> []"
  shows "rpath_dirs inp
         = Inr (remove_duplicates
                  (additional_rpath_directories inp
                   @ map PyPath (map (\<lambda>s. path_div s (default_libdir inp))
                                   (dependency_install_prefixes inp))))"
  using assms by (simp add: rpath_dirs_def rootfs_relative_no_rootfs)

lemma count_list_map_pos: "x \<in> set xs \<Longrightarrow> 0 < count_list (map f xs) (f x)"
  by (induction xs) auto

lemma count_list_map_two:
  "x \<in> set xs \<Longrightarrow> y \<in> set xs \<Longrightarrow> x \<noteq> y \<Longrightarrow> f x = f y \<Longrightarrow> 1 < count_list (map f xs) (f x)"
proof (induction xs)
  case Nil
  then show ?case by simp
next
  case (Cons a xs)
  show ?case
  proof (cases "a = x")
    case True
    then have "y \<in> set xs" using Cons.prems by auto
    from count_list_map_pos[OF this, of f] show ?thesis
      using True Cons.prems(4) by simp
  next
    case ax: False
    show ?thesis
    proof (cases "a = y")
      case True
      then have "x \<in> set xs" using Cons.prems by auto
      from count_list_map_pos[OF this, of f] show ?thesis
        using True Cons.prems(4) by simp
    next
      case False
      then have "x \<in> set xs" "y \<in> set xs" using ax Cons.prems by auto
      from Cons.IH[OF this Cons.prems(3,4)] show ?thesis by simp
    qed
  qed
qed

section \<open>The version floor (claims C2 and C10)\<close>

text \<open>
  Claim C2. For every sequence of version triples passed to \<open>set_minimum_meson_version\<close> in
  non-decreasing order, none of them below the floor already stored, every call returns and
  leaves the triple it was given as the stored floor; and a call whose triple is strictly
  smaller than the stored floor raises \<open>AssertionError\<close> and leaves the object, and so the
  floor, as it was.
\<close>

theorem version_floor_monotone:
  "(sorted_wrt (\<lambda>a b. tuple_ge b a) vs
      \<and> (case minimum_cmake_or_meson_version self of
            None \<Rightarrow> True | Some cur \<Rightarrow> list_all (\<lambda>v. tuple_ge v cur) vs)
     \<longrightarrow> set_versions self vs = map (\<lambda>v. Inr (self\<lparr>minimum_cmake_or_meson_version := Some v\<rparr>)) vs)
   \<and> (minimum_cmake_or_meson_version self = Some cur \<and> tuple_lt (major, minor, patch) cur
     \<longrightarrow> set_minimum_meson_version self major minor patch = Inl (AssertionError, self))"
  using set_versions_sorted set_lower_fails by blast

theorem version_floor_monotone_witness:
  "set_versions fresh_project [(0, 57, 0), (0, 59, 1), (1, 0, 0)] =
     [Inr (fresh_project\<lparr>minimum_cmake_or_meson_version := Some (0, 57, 0)\<rparr>),
      Inr (fresh_project\<lparr>minimum_cmake_or_meson_version := Some (0, 59, 1)\<rparr>),
      Inr (fresh_project\<lparr>minimum_cmake_or_meson_version := Some (1, 0, 0)\<rparr>)]
   \<and> set_minimum_meson_version (fresh_project\<lparr>minimum_cmake_or_meson_version := Some (1, 0, 0)\<rparr>) 0 59 1
       = Inl (AssertionError, fresh_project\<lparr>minimum_cmake_or_meson_version := Some (1, 0, 0)\<rparr>)"
  using version_floor_monotone[of "[(0, 57, 0), (0, 59, 1), (1, 0, 0)]" fresh_project "(1, 0, 0)" 0 59 1]
        version_floor_monotone[of "[]" "fresh_project\<lparr>minimum_cmake_or_meson_version := Some (1, 0, 0)\<rparr>" "(1, 0, 0)" 0 59 1]
  by (simp add: fresh_project_def tuple_lt_def)

text \<open>
  Claim C10. When \<open>__init__\<close> returns, the stored floor is \<open>(0, 57, 0)\<close>; and after any
  further calls of the version-floor operation on that object, a call with a triple strictly
  below \<open>(0, 57, 0)\<close> raises \<open>AssertionError\<close> and changes nothing.
\<close>

theorem constructed_floor:
  "init inp base = Inr self \<longrightarrow>
     minimum_cmake_or_meson_version self = Some (0, 57, 0)
     \<and> (tuple_lt (major, minor, patch) (0, 57, 0) \<longrightarrow>
          set_minimum_meson_version (after_versions self vs) major minor patch
            = Inl (AssertionError, after_versions self vs))"
proof (intro impI conjI)
  assume i: "init inp base = Inr self"
  then show f: "minimum_cmake_or_meson_version self = Some (0, 57, 0)" by (rule init_floor)
  assume lt: "tuple_lt (major, minor, patch) (0, 57, 0)"
  obtain cur where c: "minimum_cmake_or_meson_version (after_versions self vs) = Some cur"
      and ge: "tuple_ge cur (0, 57, 0)"
    using after_versions_floor[OF f tuple_ge_refl] by blast
  have "\<not> tuple_ge (major, minor, patch) cur"
    using lt ge tuple_ge_trans[of "(major, minor, patch)" cur "(0, 57, 0)"]
    unfolding tuple_lt_not_ge by blast
  then show "set_minimum_meson_version (after_versions self vs) major minor patch
            = Inl (AssertionError, after_versions self vs)"
    using c by (simp add: set_minimum_meson_version_def)
qed

theorem constructed_floor_witness:
  "(\<exists>self. init example_inputs fresh_project = Inr self
      \<and> configure_command self = ''meson'' \<and> configure_args self = [''setup'']
      \<and> minimum_cmake_or_meson_version self = Some (0, 57, 0)
      \<and> tuple_lt (0, 56, 9) (0, 57, 0)
      \<and> set_minimum_meson_version (after_versions self [(1, 2, 0)]) 0 56 9
           = Inl (AssertionError, after_versions self [(1, 2, 0)]))"
proof -
  have "\<exists>self. init example_inputs fresh_project = Inr self
      \<and> configure_command self = ''meson'' \<and> configure_args self = [''setup'']"
    by (simp add: init_def set_minimum_meson_version_def fresh_project_def example_inputs_def)
  then obtain self where s: "init example_inputs fresh_project = Inr self"
      "configure_command self = ''meson''" "configure_args self = [''setup'']"
    by blast
  have lt: "tuple_lt (0, 56, 9) (0, 57, 0)" by (simp add: tuple_lt_def)
  show ?thesis
    using constructed_floor[of example_inputs fresh_project self 0 56 9 "[(1, 2, 0)]"] s lt
    by blast
qed

section \<open>The build directory (claim C4)\<close>

text \<open>
  Claim C4. \<open>needs_configure\<close> returns true exactly when the file \<open>build.ninja\<close> of the build
  directory does not exist; once that file has been created it returns false.
\<close>

theorem needs_configure_iff:
  "needs_configure inp self
     = (Path (absolute (build_dir inp)) (parts (build_dir inp) @ [''build.ninja'']) \<notin> files self)
   \<and> needs_configure inp
        (self\<lparr>files := insert (path_div (build_dir inp) ''build.ninja'') (files self)\<rparr>) = False"
  by (simp add: needs_configure_def path_exists_def path_div_def path_of_str_def)

section \<open>Unsupported targets (claims C3 and C9)\<close>

text \<open>
  Claim C3. For a cross-compilation target that is neither FreeBSD nor baremetal, \<open>setup\<close>
  raises: \<open>AssertionError\<close> as soon as the base class's \<open>setup\<close> has returned (the failure of
  the base class otherwise). The only call made is that one, so no machine file is
  written; no machine file is chosen and no argument is added.
\<close>

theorem unsupported_cross_target_rejected:
  "\<not> compiling_for_host inp \<Longrightarrow> \<not> is_freebsd inp \<Longrightarrow> \<not> is_baremetal inp \<Longrightarrow>
   \<exists>e self'. setup_project inp self = Inl (e, self')
     \<and> e = (if ext inp SuperSetup (files self) = None then ExternalFailure else AssertionError)
     \<and> trace self' = trace self @ [SuperSetup]
     \<and> toolchain_file self' = toolchain_file self
     \<and> configure_args self' = configure_args self"
  by (cases "ext inp SuperSetup (files self)")
     (simp_all add: setup_project_def and_then_def do_call_def setup_toolchain_file_def)

theorem unsupported_cross_target_rejected_witness:
  "\<not> compiling_for_host (example_inputs\<lparr>compiling_for_host := False\<rparr>)
   \<and> \<not> is_freebsd (example_inputs\<lparr>compiling_for_host := False\<rparr>)
   \<and> \<not> is_baremetal (example_inputs\<lparr>compiling_for_host := False\<rparr>)
   \<and> (\<exists>self'. setup_project (example_inputs\<lparr>compiling_for_host := False\<rparr>) fresh_project
               = Inl (AssertionError, self')
        \<and> trace self' = [SuperSetup] \<and> toolchain_file self' = None \<and> configure_args self' = [])"
  using unsupported_cross_target_rejected[of "example_inputs\<lparr>compiling_for_host := False\<rparr>" fresh_project]
  by (simp add: example_inputs_def fresh_project_def)

text \<open>
  Claim C9. For a cross-compilation target outside the CheriBSD family, \<open>run_tests\<close> returns
  without raising; all it does is log one message that names the target and the
  architecture: no command is run and nothing else changes.
\<close>

theorem run_tests_other_cross_target:
  "\<not> compiling_for_host inp \<Longrightarrow> \<not> is_cheribsd inp \<Longrightarrow>
   run_tests inp self =
     Inr (self\<lparr>trace := trace self @
            [Info [''Don't know how to run tests for'', target inp,
                   ''when cross-compiling for'', crosscompile_target inp]]\<rparr>)"
  by (simp add: run_tests_def info_def)

theorem run_tests_other_cross_target_witness:
  "\<not> compiling_for_host (example_inputs\<lparr>compiling_for_host := False, is_freebsd := True,
        crosscompile_target := ''freebsd-riscv64''\<rparr>)
   \<and> \<not> is_cheribsd (example_inputs\<lparr>compiling_for_host := False, is_freebsd := True,
        crosscompile_target := ''freebsd-riscv64''\<rparr>)
   \<and> run_tests (example_inputs\<lparr>compiling_for_host := False, is_freebsd := True,
        crosscompile_target := ''freebsd-riscv64''\<rparr>) fresh_project =
      Inr (fresh_project\<lparr>trace :=
             [Info [''Don't know how to run tests for'', ''proj'',
                    ''when cross-compiling for'', ''freebsd-riscv64'']]\<rparr>)"
  using run_tests_other_cross_target[of "example_inputs\<lparr>compiling_for_host := False, is_freebsd := True,
        crosscompile_target := ''freebsd-riscv64''\<rparr>" fresh_project]
  by (simp add: example_inputs_def fresh_project_def)

section \<open>Link-time optimisation (claim C7)\<close>



section \<open>Lists in the machine files (claim C5)\<close>

text \<open>
  Claim C5. For every list of strings and paths, \<open>_toolchain_file_list_to_str\<close> returns a
  text from which the reader of list displays gets back, in order, the strings of the
  entries (a path as its string): reading after rendering is the identity on such lists.
  The strings are arbitrary sequences of Unicode code points. Of the interpreter's table of
  printable characters one fact is used, that it holds no surrogate. The reader refuses a
  line feed, a carriage return or a null character that stands unescaped in a literal, so
  the theorem also says that the renderer escapes them; the last part says that no control
  character of ASCII at all stands in the text.
\<close>

theorem list_rendering_round_trip:
  "list_all is_str_or_path values \<Longrightarrow>
   list_all (\<lambda>v. valid_text (value_str v)) values \<Longrightarrow>
   surrogates_not_printable isprintable \<Longrightarrow>
   (\<exists>txt. toolchain_file_list_to_str isprintable values = Inr txt
        \<and> read_str_list txt = Some (map value_str values)
        \<and> list_all (\<lambda>c. 0x20 \<le> c \<and> c \<noteq> 0x7F) txt)"
  using read_repr_str_list[OF _ printable_not_surrogate, of "map value_str values" isprintable]
    repr_str_list_range[of isprintable "map value_str values"]
  by (simp add: toolchain_file_list_to_str_def list_all_iff)

text \<open>
  An example: a string with a single quote, a path, and a string with a line feed, a
  printable letter above ASCII, a line separator, a printable character above
  \<open>0xFFFF\<close>, the last code point and a control character. The first string is shown in
  double quotes; in the last one the letter and the character above \<open>0xFFFF\<close> stand as
  they are, the others as \<open>\n\<close>, \<open>\u2028\<close>, \<open>\U0010ffff\<close> and \<open>\x01\<close>.
\<close>

theorem list_rendering_round_trip_witness:
  "list_all is_str_or_path
     [StrValue (ustr ''it's''), PathValue (ustr (path_str (Path True [''usr'', ''lib'']))),
      StrValue [0x0A, 0xE9, 0x2028, 0x1F600, 0x10FFFF, 0x01]]
   \<and> list_all (\<lambda>v. valid_text (value_str v))
     [StrValue (ustr ''it's''), PathValue (ustr (path_str (Path True [''usr'', ''lib'']))),
      StrValue [0x0A, 0xE9, 0x2028, 0x1F600, 0x10FFFF, 0x01]]
   \<and> surrogates_not_printable example_printable
   \<and> toolchain_file_list_to_str example_printable
     [StrValue (ustr ''it's''), PathValue (ustr (path_str (Path True [''usr'', ''lib'']))),
      StrValue [0x0A, 0xE9, 0x2028, 0x1F600, 0x10FFFF, 0x01]]
       = Inr (ustr ''['' @ [dquote] @ ustr ''it's'' @ [dquote] @ ustr '', ''
              @ [squote] @ ustr ''/usr/lib'' @ [squote] @ ustr '', ''
              @ [squote] @ [backslash] @ ustr ''n'' @ [0xE9] @ [backslash] @ ustr ''u2028''
              @ [0x1F600] @ [backslash] @ ustr ''U0010ffff'' @ [backslash] @ ustr ''x01''
              @ [squote] @ ustr '']'')
   \<and> read_str_list (ustr ''['' @ [dquote] @ ustr ''it's'' @ [dquote] @ ustr '', ''
              @ [squote] @ ustr ''/usr/lib'' @ [squote] @ ustr '', ''
              @ [squote] @ [backslash] @ ustr ''n'' @ [0xE9] @ [backslash] @ ustr ''u2028''
              @ [0x1F600] @ [backslash] @ ustr ''U0010ffff'' @ [backslash] @ ustr ''x01''
              @ [squote] @ ustr '']'')
       = Some [ustr ''it's'', ustr ''/usr/lib'', [0x0A, 0xE9, 0x2028, 0x1F600, 0x10FFFF, 0x01]]"
proof -
  let ?entries = "[StrValue (ustr ''it's''), PathValue (ustr (path_str (Path True [''usr'', ''lib'']))),
      StrValue [0x0A, 0xE9, 0x2028, 0x1F600, 0x10FFFF, 0x01]]"
  let ?shown = "ustr ''['' @ [dquote] @ ustr ''it's'' @ [dquote] @ ustr '', ''
              @ [squote] @ ustr ''/usr/lib'' @ [squote] @ ustr '', ''
              @ [squote] @ [backslash] @ ustr ''n'' @ [0xE9] @ [backslash] @ ustr ''u2028''
              @ [0x1F600] @ [backslash] @ ustr ''U0010ffff'' @ [backslash] @ ustr ''x01''
              @ [squote] @ ustr '']''"
  have a: "list_all is_str_or_path ?entries"
    by (simp add: is_str_or_path_def)
  have b: "list_all (\<lambda>v. valid_text (value_str v)) ?entries"
    by (simp add: valid_text_def ustr_def uchr_def path_str_def)
  have c: "surrogates_not_printable example_printable"
    unfolding surrogates_not_printable_def list_all_upt example_printable_def by simp
  have r: "toolchain_file_list_to_str example_printable ?entries = Inr ?shown"
    by (simp add: toolchain_file_list_to_str_def is_str_or_path_def repr_str_list_def repr_str_def
          repr_char_def hex_digits_numeral hex_digit_def example_printable_def path_str_def
          ustr_def uchr_def squote_def dquote_def backslash_def Let_def)
  have v: "map value_str ?entries
        = [ustr ''it's'', ustr ''/usr/lib'', [0x0A, 0xE9, 0x2028, 0x1F600, 0x10FFFF, 0x01]]"
    by (simp add: path_str_def)
  obtain shown where s: "toolchain_file_list_to_str example_printable ?entries = Inr shown"
      "read_str_list shown = Some (map value_str ?entries)"
    using list_rendering_round_trip[OF a b c] by (elim exE conjE)
  have "shown = ?shown" using s(1) r by simp
  then have "read_str_list ?shown = Some (map value_str ?entries)" using s(2) by simp
  then have rd: "read_str_list ?shown
      = Some [ustr ''it's'', ustr ''/usr/lib'', [0x0A, 0xE9, 0x2028, 0x1F600, 0x10FFFF, 0x01]]"
    unfolding v .
  show ?thesis
    by (intro conjI a b c r rd)
qed

section \<open>The run-path flag (claim C6)\<close>

text \<open>
  Claim C6 says that the final list appended to the configuration holds each distinct entry
  exactly once. The code diverges from it in \<open>setup\<close>: in a cross build without a root file
  system the library directories of the dependency prefixes stay paths, while the additional
  run-path directories of the target are strings. \<open>remove_duplicates\<close> compares the entries
  as values, and a string never equals a path; the flag is then made from the texts of the
  entries. So when \<open>setup\<close> returns and a library directory is also among the additional
  directories, the list it took the flag from has no duplicate, and the \<open>-Wl,-rpath=\<close> flag
  it appended names that directory more than once.
\<close>

theorem rpath_flag_repeats_directory:
  assumes "\<not> compiling_for_host inp" and "rootfs_dir inp = None"
    and "p \<in> set (dependency_install_prefixes inp)"
    and "PyStr (path_str (path_div p (default_libdir inp))) \<in> set (additional_rpath_directories inp)"
    and "setup_project inp self = Inr self'"
  shows "\<exists>dirs. rpath_dirs inp = Inr dirs \<and> distinct dirs
           \<and> COMMON_LDFLAGS self'
               = COMMON_LDFLAGS self @ [''-Wl,-rpath='' @ str_join '':'' (map py_str dirs)]
           \<and> 1 < count_list (map py_str dirs) (path_str (path_div p (default_libdir inp)))"
proof -
  let ?libdir = "path_div p (default_libdir inp)"
  let ?dirs = "remove_duplicates
                 (additional_rpath_directories inp
                  @ map PyPath (map (\<lambda>s. path_div s (default_libdir inp))
                                  (dependency_install_prefixes inp)))"
  have "dependency_install_prefixes inp \<noteq> []" using assms(3) by auto
  then have dirs: "rpath_dirs inp = Inr ?dirs"
    using assms(2) by (rule rpath_dirs_no_rootfs[rotated])
  have a: "PyStr (path_str ?libdir) \<in> set ?dirs"
    using assms(4) by (simp add: remove_duplicates_set)
  have b: "PyPath ?libdir \<in> set ?dirs"
    using assms(3) by (auto simp: remove_duplicates_set)
  have "py_str (PyStr (path_str ?libdir)) = py_str (PyPath ?libdir)" by simp
  from count_list_map_two[OF a b _ this]
  have twice: "1 < count_list (map py_str ?dirs) (path_str ?libdir)" by simp
  have "?dirs \<noteq> []" using a by auto
  moreover obtain found where "rpath_dirs inp = Inr found"
      "COMMON_LDFLAGS self' = COMMON_LDFLAGS self
         @ (if found = [] then [] else [''-Wl,-rpath='' @ str_join '':'' (map py_str found)])"
    using setup_project_ldflags[OF assms(1,5)] by blast
  ultimately have "COMMON_LDFLAGS self'
      = COMMON_LDFLAGS self @ [''-Wl,-rpath='' @ str_join '':'' (map py_str ?dirs)]"
    using dirs by simp
  with dirs twice remove_duplicates_distinct[of "additional_rpath_directories inp
                  @ map PyPath (map (\<lambda>s. path_div s (default_libdir inp))
                                  (dependency_install_prefixes inp))"]
  show ?thesis by blast
qed

text \<open>
  Claim C6, the failing input: a cross build without a root file system, with
  \<open>/rootfs/usr/lib\<close> as additional run-path directory and the dependency prefix
  \<open>/rootfs/usr\<close>. \<open>setup\<close> returns, and the one flag it has appended is
  \<open>-Wl,-rpath=/rootfs/usr/lib:/rootfs/usr/lib\<close>.
\<close>

theorem rpath_flag_repeats_directory_witness:
  "\<not> compiling_for_host no_rootfs_inputs \<and> rootfs_dir no_rootfs_inputs = None
   \<and> Path True [''rootfs'', ''usr''] \<in> set (dependency_install_prefixes no_rootfs_inputs)
   \<and> PyStr ''/rootfs/usr/lib'' \<in> set (additional_rpath_directories no_rootfs_inputs)
   \<and> path_str (path_div (Path True [''rootfs'', ''usr'']) (default_libdir no_rootfs_inputs))
       = ''/rootfs/usr/lib''
   \<and> (\<exists>self'. setup_project no_rootfs_inputs fresh_project = Inr self'
         \<and> COMMON_LDFLAGS self' = [''-Wl,-rpath=/rootfs/usr/lib:/rootfs/usr/lib''])
   \<and> rpath_dirs no_rootfs_inputs
       = Inr [PyStr ''/rootfs/usr/lib'', PyPath (Path True [''rootfs'', ''usr'', ''lib''])]
   \<and> count_list (map py_str [PyStr ''/rootfs/usr/lib'', PyPath (Path True [''rootfs'', ''usr'', ''lib''])])
        ''/rootfs/usr/lib'' = 2"
proof -
  let ?p = "Path True [''rootfs'', ''usr'']"
  have f: "\<not> compiling_for_host no_rootfs_inputs" "rootfs_dir no_rootfs_inputs = None"
      "?p \<in> set (dependency_install_prefixes no_rootfs_inputs)"
      "PyStr ''/rootfs/usr/lib'' \<in> set (additional_rpath_directories no_rootfs_inputs)"
    by (simp_all add: no_rootfs_inputs_def example_inputs_def)
  have libdir: "path_div ?p (default_libdir no_rootfs_inputs) = Path True [''rootfs'', ''usr'', ''lib'']"
    by (simp add: no_rootfs_inputs_def example_inputs_def path_div_def path_of_str_def)
  have libtext: "path_str (path_div ?p (default_libdir no_rootfs_inputs)) = ''/rootfs/usr/lib''"
    unfolding libdir by (simp add: path_str_def)
  have dirs: "rpath_dirs no_rootfs_inputs
       = Inr [PyStr ''/rootfs/usr/lib'', PyPath (Path True [''rootfs'', ''usr'', ''lib''])]"
    by (simp add: rpath_dirs_def path_div_def path_of_str_def remove_duplicates_def
          no_rootfs_inputs_def example_inputs_def)
  have g: "ext no_rootfs_inputs = (\<lambda>c fs. Some fs)" "compiling_for_host no_rootfs_inputs = False"
      "is_baremetal no_rootfs_inputs"
    by (simp_all add: no_rootfs_inputs_def example_inputs_def)
  have "\<exists>s. setup_project no_rootfs_inputs fresh_project = Inr s"
    by (simp add: setup_project_def and_then_def do_call_def setup_toolchain_file_def
          native_toolchain_file_def setup_rpath_def dirs g Let_def)
  then obtain s where s: "setup_project no_rootfs_inputs fresh_project = Inr s" ..
  have m: "PyStr (path_str (path_div ?p (default_libdir no_rootfs_inputs)))
             \<in> set (additional_rpath_directories no_rootfs_inputs)"
    unfolding libtext by (rule f(4))
  obtain found where fd: "rpath_dirs no_rootfs_inputs = Inr found"
      and l: "COMMON_LDFLAGS s
               = COMMON_LDFLAGS fresh_project @ [''-Wl,-rpath='' @ str_join '':'' (map py_str found)]"
    using rpath_flag_repeats_directory[OF f(1) f(2) f(3) m s] by (elim exE conjE)
  have "found = [PyStr ''/rootfs/usr/lib'', PyPath (Path True [''rootfs'', ''usr'', ''lib''])]"
    using fd dirs by simp
  then have flag: "COMMON_LDFLAGS s = [''-Wl,-rpath=/rootfs/usr/lib:/rootfs/usr/lib'']"
    using l by (simp add: fresh_project_def path_str_def)
  have cnt: "count_list (map py_str [PyStr ''/rootfs/usr/lib'', PyPath (Path True [''rootfs'', ''usr'', ''lib''])])
        ''/rootfs/usr/lib'' = 2"
    by (simp add: path_str_def)
  show ?thesis
    by (intro conjI exI[of _ s] f libtext s flag dirs cnt)
qed

section \<open>The install prefix (claim C8)\<close>



section \<open>Forced reconfigure (claim C1)\<close>

text \<open>
  Claim C1 says that after a forced reconfigure (no clean, \<open>meson-info\<close> in the build
  directory) the cache is cleared before the main configure command and \<open>--reconfigure\<close>
  stands exactly once in the final arguments. The first half holds. The second does not:
  \<open>setup\<close> (line 111) and \<open>configure\<close> (line 189) both append the flag under the same
  condition, so whenever \<open>setup\<close> and then \<open>configure\<close> return under that condition, the
  arguments handed to the main configure command hold \<open>--reconfigure\<close> at least twice.
  The condition is read after calls to collaborators; they are assumed not to remove
  \<open>meson-info\<close>.
\<close>

theorem reconfigure_flag_appended_twice:
  "force_configure inp \<Longrightarrow> \<not> with_clean inp \<Longrightarrow>
   path_div (build_dir inp) ''meson-info'' \<in> files self \<Longrightarrow>
   (\<forall>c fs fs'. ext inp c fs = Some fs' \<and> path_div (build_dir inp) ''meson-info'' \<in> fs
        \<longrightarrow> path_div (build_dir inp) ''meson-info'' \<in> fs') \<Longrightarrow>
   setup_project inp self = Inr self' \<Longrightarrow> configure inp self' = Inr self'' \<Longrightarrow>
   (\<exists>before after.
       trace self'' = before
         @ [RunCmd [configure_command self, ''configure'', ''--clearcache''] (build_dir inp),
            SuperConfigure (configure_args self'')] @ after)
   \<and> count_list (configure_args self) ''--reconfigure'' + 2
       \<le> count_list (configure_args self'') ''--reconfigure''"
proof -
  let ?mi = "path_div (build_dir inp) ''meson-info''"
  let ?R = "''--reconfigure''"
  assume force: "force_configure inp" "\<not> with_clean inp"
    and there: "?mi \<in> files self"
    and kept: "\<forall>c fs fs'. ext inp c fs = Some fs' \<and> ?mi \<in> fs \<longrightarrow> ?mi \<in> fs'"
    and su: "setup_project inp self = Inr self'"
    and co: "configure inp self' = Inr self''"
  obtain fs s1 s2 where s: "ext inp SuperSetup (files self) = Some fs"
      "s1 = self\<lparr>trace := trace self @ [SuperSetup], files := fs,
                 toolchain_template := Some (include_local_file inp ''files/meson-machine-file.ini.in'')\<rparr>"
      "setup_toolchain_file inp s1 = Inr s2" "setup_rpath inp (setup_flags inp s2) = Inr self'"
    using setup_project_Inr[OF su] by blast
  have keep: "?mi \<in> fs'" if "ext inp c fs0 = Some fs'" "?mi \<in> fs0" for c fs0 fs'
    using kept that by blast
  have fs: "?mi \<in> fs" using keep[OF s(1) there] .
  obtain extra where s2: "files s2 = files s1" "configure_command s2 = configure_command s1"
      "configure_args s2 = configure_args s1 @ extra"
    using setup_toolchain_file_Inr[OF s(3)] by blast
  have s1: "files s1 = fs" "configure_command s1 = configure_command self"
      "configure_args s1 = configure_args self"
    by (simp_all add: s(2))
  have a0: "files self' = files (setup_flags inp s2)"
      "configure_command self' = configure_command (setup_flags inp s2)"
      "configure_args self' = configure_args (setup_flags inp s2)"
    using setup_rpath_Inr[OF s(4)] by simp_all
  have a1: "files self' = fs" "configure_command self' = configure_command self"
    using a0 setup_flags_fields[of inp s2] s2 s1 by simp_all
  have "count_list (configure_args self') ?R = count_list (configure_args s2) ?R + 1"
    using setup_flags_count[of inp s2] force fs s2(1) s1(1) by (simp add: a0(3))
  then have a2: "count_list (configure_args self) ?R + 1 \<le> count_list (configure_args self') ?R"
    by (simp add: s2(3) s1(3))
  obtain c1 c2 c3 c4 c5 where c: "configure_toolchain_file inp self' = Inr c1"
      "configure_native_file inp c1 = Inr c2" "configure_prefix inp c2 = Inr c3"
      "configure_reconfigure inp c3 = Inr c4" "configure_invoke inp c4 = Inr c5"
      "configure_compilation_db inp c5 = Inr self''"
    using configure_Inr[OF co] by blast
  obtain call1 fs1 where e1: "ext inp call1 (files self') = Some fs1" "files c1 = fs1"
      and c1: "configure_args c1 = configure_args self'" "configure_command c1 = configure_command self'"
    using configure_toolchain_file_Inr[OF c(1)] by blast
  have f1: "?mi \<in> files c1" using keep[OF e1(1)] fs a1(1) e1(2) by simp
  have c2: "configure_args c2 = configure_args c1" "configure_command c2 = configure_command c1"
      and f2': "files c2 = files c1 \<or> (\<exists>call2 fs2. ext inp call2 (files c1) = Some fs2 \<and> files c2 = fs2)"
    using configure_native_file_Inr[OF c(2)] by simp_all
  have f2: "?mi \<in> files c2" using f2' f1 keep by auto
  have c3: "configure_args c3 = filter (\<lambda>arg. \<not> is_option_for ''prefix'' arg) (configure_args c2)
              @ [''-Dprefix='' @ path_str (install_prefix inp)]"
      "configure_command c3 = configure_command c2" "files c3 = files c2"
    using configure_prefix_Inr[OF c(3)] by simp_all
  have n3: "count_list (configure_args c3) ?R = count_list (configure_args self') ?R"
    using count_list_filter_keep[of "\<lambda>arg. \<not> is_option_for ''prefix'' arg" ?R "configure_args c2"]
      reconfigure_is_no_option[of "''prefix''"]
    by (simp add: c3(1) c2(1) c1(1))
  have cmd: "configure_command c3 = configure_command self"
    by (simp add: c3(2) c2(2) c1(2) a1(2))
  have c4: "configure_args c4 = configure_args c3 @ [?R]"
      "trace c4 = trace c3 @ [RunCmd [configure_command self, ''configure'', ''--clearcache''] (build_dir inp)]"
    using configure_reconfigure_Inr[OF c(4)] f2 force by (simp_all add: c3(3) cmd)
  have c5: "configure_args c5 = configure_args c4 @ [path_str (source_dir inp), path_str (build_dir inp)]"
      "trace c5 = trace c4 @ [SuperConfigure (configure_args c5)]"
    using configure_invoke_Inr[OF c(5)] by simp_all
  obtain calls where c6: "configure_args self'' = configure_args c5" "trace self'' = trace c5 @ calls"
    using configure_compilation_db_Inr[OF c(6)] by blast
  have "trace self'' = trace c3
         @ [RunCmd [configure_command self, ''configure'', ''--clearcache''] (build_dir inp),
            SuperConfigure (configure_args self'')] @ calls"
    using c4 c5 c6 by simp
  moreover have "count_list (configure_args self) ?R + 2 \<le> count_list (configure_args self'') ?R"
    using n3 c4(1) c5(1) c6(1) a2 by simp
  ultimately show ?thesis by blast
qed

theorem reconfigure_flag_appended_twice_witness:
  "(\<exists>self self' self''.
      init (example_inputs\<lparr>force_configure := True\<rparr>)
        (fresh_project\<lparr>files := {Path True [''build'', ''proj'', ''meson-info'']}\<rparr>) = Inr self
    \<and> setup_project (example_inputs\<lparr>force_configure := True\<rparr>) self = Inr self'
    \<and> configure (example_inputs\<lparr>force_configure := True\<rparr>) self' = Inr self''
    \<and> configure_args self'' =
         [''setup'', ''--native-file'', ''/build/proj/meson-native-file.ini'', ''--reconfigure'',
          ''--wrap-mode=nofallback'', ''-Dbuildtype=debugoptimized'', ''-Dprefix=/opt/proj'',
          ''--reconfigure'', ''/src/proj'', ''/build/proj'']
    \<and> count_list (configure_args self'') ''--reconfigure'' = 2
    \<and> (\<exists>before after.
          trace self'' = before
            @ [RunCmd [''meson'', ''configure'', ''--clearcache''] (Path True [''build'', ''proj'']),
               SuperConfigure (configure_args self'')] @ after))"
proof -
  let ?inp = "example_inputs\<lparr>force_configure := True\<rparr>"
  let ?mi = "Path True [''build'', ''proj'', ''meson-info'']"
  define s0 where "s0 = fresh_project\<lparr>files := {?mi}, configure_command := ''meson'',
      configure_args := [''setup''], minimum_cmake_or_meson_version := Some (0, 57, 0)\<rparr>"
  have i: "init ?inp (fresh_project\<lparr>files := {?mi}\<rparr>) = Inr s0"
    by (simp add: init_def set_minimum_meson_version_def s0_def fresh_project_def example_inputs_def)
  have mi: "path_div (build_dir ?inp) ''meson-info'' = ?mi"
    by (simp add: example_inputs_def path_div_def path_of_str_def)
  have "\<exists>s1. setup_project ?inp s0 = Inr s1
      \<and> configure_args s1 = [''setup'', ''--native-file'', ''/build/proj/meson-native-file.ini'',
            ''--reconfigure'', ''--wrap-mode=nofallback'', ''-Dbuildtype=debugoptimized'']
      \<and> files s1 = {?mi} \<and> configure_command s1 = ''meson''"
    by (simp add: setup_project_def and_then_def do_call_def setup_toolchain_file_def
          setup_flags_def setup_rpath_def extend_args_def add_meson_options_def option_arg_def
          path_exists_def path_div_def path_of_str_def path_str_def is_option_for_def
          s0_def fresh_project_def example_inputs_def Let_def)
  then obtain s1 where s1: "setup_project ?inp s0 = Inr s1"
      "configure_args s1 = [''setup'', ''--native-file'', ''/build/proj/meson-native-file.ini'',
            ''--reconfigure'', ''--wrap-mode=nofallback'', ''-Dbuildtype=debugoptimized'']"
      "files s1 = {?mi}" "configure_command s1 = ''meson''"
    by blast
  have "\<exists>s2. configure ?inp s1 = Inr s2
      \<and> configure_args s2 = [''setup'', ''--native-file'', ''/build/proj/meson-native-file.ini'',
            ''--reconfigure'', ''--wrap-mode=nofallback'', ''-Dbuildtype=debugoptimized'',
            ''-Dprefix=/opt/proj'', ''--reconfigure'', ''/src/proj'', ''/build/proj'']"
    by (simp add: configure_def and_then_def configure_toolchain_file_def configure_native_file_def
          configure_prefix_def configure_reconfigure_def configure_invoke_def
          configure_compilation_db_def do_call_def extend_args_def add_meson_options_def
          option_arg_def path_exists_def path_div_def path_of_str_def path_str_def
          is_option_for_def s1(2,3,4) example_inputs_def Let_def)
  then obtain s2 where s2: "configure ?inp s1 = Inr s2"
      "configure_args s2 = [''setup'', ''--native-file'', ''/build/proj/meson-native-file.ini'',
            ''--reconfigure'', ''--wrap-mode=nofallback'', ''-Dbuildtype=debugoptimized'',
            ''-Dprefix=/opt/proj'', ''--reconfigure'', ''/src/proj'', ''/build/proj'']"
    by blast
  have pre: "force_configure ?inp" "\<not> with_clean ?inp"
      "path_div (build_dir ?inp) ''meson-info'' \<in> files s0"
      "\<forall>c fs fs'. ext ?inp c fs = Some fs' \<and> path_div (build_dir ?inp) ''meson-info'' \<in> fs
          \<longrightarrow> path_div (build_dir ?inp) ''meson-info'' \<in> fs'"
    unfolding mi by (simp_all add: example_inputs_def s0_def fresh_project_def)
  have cmd: "configure_command s0 = ''meson''" "build_dir ?inp = Path True [''build'', ''proj'']"
    by (simp_all add: s0_def example_inputs_def)
  have "\<exists>before after.
          trace s2 = before
            @ [RunCmd [''meson'', ''configure'', ''--clearcache''] (Path True [''build'', ''proj'']),
               SuperConfigure (configure_args s2)] @ after"
    using reconfigure_flag_appended_twice[OF pre s1(1) s2(1)] unfolding cmd by blast
  moreover have "count_list (configure_args s2) ''--reconfigure'' = 2"
    by (simp add: s2(2))
  ultimately show ?thesis
    using i s1(1) s2 by blast
qed


end
